theory Spec2Isabelle
  imports Complex_Main
begin

section \<open>Endicia shipping on sales: the data model of \<^verbatim>\<open>sale.py\<close>\<close>

text \<open>
  \<^verbatim>\<open>sale.py\<close> extends Tryton's \<^verbatim>\<open>sale.sale\<close> and \<^verbatim>\<open>sale.line\<close>. Records of the
  host are active records: a Python object is an id into the database. The model keeps
  the fields the module reads or writes.

  Python's \<^verbatim>\<open>Decimal\<close> and \<^verbatim>\<open>float\<close> values are rational numbers; both are modelled
  as \<open>rat\<close>. What a float operation rounds is not computed here: the one float
  multiplication of the module is a parameter (\<open>float_mul\<close>).
\<close>

type_synonym decimal = rat
type_synonym pyfloat = rat

text \<open>
  The exceptions the module can raise. \<open>mailclass_missing\<close> and \<open>weight_required\<close> are
  the two keys of \<^verbatim>\<open>raise_user_error\<close> (the spec's MissingMailClassError and
  MissingWeightError; the argument is the product's name, the \<^verbatim>\<open>error_args\<close>).
  \<open>AttributeError\<close> is an attribute read on \<^verbatim>\<open>None\<close>, \<open>ValueError\<close> a failed tuple
  unpacking, \<open>HostError\<close> any failure of a collaborator that is called.
\<close>

datatype error =
    mailclass_missing
  | weight_required string
  | AttributeError
  | ValueError
  | HostError string

record uom =
  uom_id :: nat
  symbol :: string

record product =
  product_id :: nat
  name :: string
  product_type :: string
  weight :: "pyfloat option"
  weight_uom :: uom
  default_uom :: uom
  sale_uom :: uom

text \<open>
  The values of a sale line, as the dictionary of a \<^verbatim>\<open>create\<close> gives them; a stored
  line has an id as well. \<open>shipment_cost\<close> is the field whose truth value marks a line as
  a shipping charge.
\<close>

record line_values =
  line_type :: string
  product :: "product option"
  description :: string
  quantity :: pyfloat
  unit :: uom
  unit_price :: decimal
  shipment_cost :: "decimal option"
  amount :: decimal
  taxes :: "nat list"
  sequence :: "int option"

record sale_line = line_values +
  line_id :: nat

text \<open>Python's truth value of an optional number: \<^verbatim>\<open>None\<close> and zero are false.\<close>

fun truthy :: "rat option \<Rightarrow> bool" where
  "truthy None = False"
| "truthy (Some x) = (x \<noteq> 0)"

section \<open>\<^verbatim>\<open>SaleLine.get_weight_for_endicia\<close>\<close>

text \<open>
  \<^verbatim>\<open>ProductUom.search([('symbol', '=', 'oz')])\<close> over the table of units, and the
  unpacking \<^verbatim>\<open>ounce, = ...\<close>, which raises unless the search finds exactly one unit.
\<close>

definition search_symbol :: "uom list \<Rightarrow> string \<Rightarrow> uom list" where
  "search_symbol uoms s = filter (\<lambda>u. symbol u = s) uoms"

fun unpack_one :: "'a list \<Rightarrow> error + 'a" where
  "unpack_one [x] = Inr x"
| "unpack_one _ = Inl ValueError"

text \<open>
  The parameters are the host's \<^verbatim>\<open>ProductUom.compute_qty\<close>, the float multiplication
  and the table of units. Records are compared by id, as the host's \<^verbatim>\<open>!=\<close> does.
  The unit weight is a float already, so \<^verbatim>\<open>float(self.product.weight)\<close> is the weight;
  \<^verbatim>\<open>not self.product.weight\<close> holds for \<^verbatim>\<open>None\<close> and for zero. \<^verbatim>\<open>math.ceil\<close> is the
  ceiling. A line without a product makes \<^verbatim>\<open>self.product.type\<close> raise.
\<close>

definition get_weight_for_endicia ::
  "(uom \<Rightarrow> pyfloat \<Rightarrow> uom \<Rightarrow> pyfloat) \<Rightarrow> (pyfloat \<Rightarrow> pyfloat \<Rightarrow> pyfloat) \<Rightarrow> uom list \<Rightarrow>
   'a sale_line_scheme \<Rightarrow> error + int" where
  "get_weight_for_endicia compute_qty float_mul uoms self =
    (case product self of
       None \<Rightarrow> Inl AttributeError
     | Some p \<Rightarrow>
        if product_type p = ''service'' then Inr 0
        else (case weight p of
           None \<Rightarrow> Inl (weight_required (name p))
         | Some w \<Rightarrow>
            if w = 0 then Inl (weight_required (name p))
            else
              let qty = (if uom_id (unit self) \<noteq> uom_id (default_uom p)
                         then compute_qty (unit self) (quantity self) (default_uom p)
                         else quantity self);
                  raw = float_mul w qty
              in if symbol (weight_uom p) \<noteq> ''oz''
                 then (case unpack_one (search_symbol uoms ''oz'') of
                         Inl e \<Rightarrow> Inl e
                       | Inr ounce \<Rightarrow> Inr \<lceil>compute_qty (weight_uom p) raw ounce\<rceil>)
                 else Inr \<lceil>raw\<rceil>))"

text \<open>
  The weight calculator in the words of the spec (section 4.2), for a line with product
  \<open>p\<close> of unit weight \<open>w\<close>: the quantity in the product's default unit, the raw weight
  in the product's weight unit, the raw weight in ounces, and its ceiling.
\<close>

definition spec_quantity ::
  "(uom \<Rightarrow> pyfloat \<Rightarrow> uom \<Rightarrow> pyfloat) \<Rightarrow> 'a sale_line_scheme \<Rightarrow> product \<Rightarrow> pyfloat" where
  "spec_quantity compute_qty l p =
     (if uom_id (unit l) = uom_id (default_uom p) then quantity l
      else compute_qty (unit l) (quantity l) (default_uom p))"

definition spec_raw_ounces ::
  "(uom \<Rightarrow> pyfloat \<Rightarrow> uom \<Rightarrow> pyfloat) \<Rightarrow> (pyfloat \<Rightarrow> pyfloat \<Rightarrow> pyfloat) \<Rightarrow> uom \<Rightarrow>
   'a sale_line_scheme \<Rightarrow> product \<Rightarrow> pyfloat \<Rightarrow> pyfloat" where
  "spec_raw_ounces compute_qty float_mul ounce l p w =
     (if symbol (weight_uom p) = ''oz'' then float_mul w (spec_quantity compute_qty l p)
      else compute_qty (weight_uom p) (float_mul w (spec_quantity compute_qty l p)) ounce)"

definition spec_line_weight ::
  "(uom \<Rightarrow> pyfloat \<Rightarrow> uom \<Rightarrow> pyfloat) \<Rightarrow> (pyfloat \<Rightarrow> pyfloat \<Rightarrow> pyfloat) \<Rightarrow> uom \<Rightarrow>
   'a sale_line_scheme \<Rightarrow> product \<Rightarrow> pyfloat \<Rightarrow> int" where
  "spec_line_weight compute_qty float_mul ounce l p w =
     (if product_type p = ''service'' then 0
      else \<lceil>spec_raw_ounces compute_qty float_mul ounce l p w\<rceil>)"

section \<open>Sales, shipments and the database\<close>

record mailclass =
  mailclass_id :: nat
  mailclass_name :: string
  mailclass_code :: string

record carrier =
  carrier_cost_method :: string
  carrier_product :: product

text \<open>
  An order. \<open>warehouse_zip\<close>, \<open>shipment_zip\<close> and \<open>shipment_country_code\<close> stand for
  \<^verbatim>\<open>warehouse.address.zip\<close>, \<^verbatim>\<open>shipment_address.zip\<close> and
  \<^verbatim>\<open>shipment_address.country.code\<close>: the order is taken to have its addresses.
\<close>

record sale =
  carrier :: "carrier option"
  endicia_mailclass :: "mailclass option"
  is_endicia_shipping :: bool
  lines :: "sale_line list"
  warehouse_zip :: string
  shipment_zip :: string
  shipment_country_code :: string

text \<open>The fields of an outbound shipment that \<^verbatim>\<open>create_shipment\<close> writes.\<close>

record shipment =
  shipment_endicia_mailclass :: "nat option"
  shipment_is_endicia_shipping :: bool
  cost :: "decimal option"

record endicia_credentials =
  account_id :: string
  requester_id :: string
  passphrase :: string
  usps_test :: bool

text \<open>The arguments of \<^verbatim>\<open>CalculatingPostageAPI\<close>: one request to the rate API.\<close>

record postage_request =
  req_mailclass :: string
  req_weightoz :: int
  req_from_postal_code :: string
  req_to_postal_code :: string
  req_to_country_code :: string
  req_accountid :: string
  req_requesterid :: string
  req_passphrase :: string
  req_test :: bool

text \<open>The keys of the transaction context that the module sets or passes on.\<close>

record txn_context =
  ctx_sale :: "nat option"
  ctx_shipment :: "nat option"

text \<open>
  The database and the network: orders and shipments by id, the next id of a sale line,
  and the requests sent to the rate API so far, oldest first. A function returns its
  result, an error or a value, together with the state it leaves: the caller of a failed
  operation sees what was done before the exception.
\<close>

record state =
  sales :: "nat \<Rightarrow> sale"
  shipments :: "nat \<Rightarrow> shipment"
  next_line_id :: nat
  sent :: "postage_request list"

text \<open>
  The carrier's \<^verbatim>\<open>get_sale_price()\<close> is a collaborator: it is called on a carrier,
  reads the transaction context and the database, may call the rate API, and returns
  an error or the pair of a cost and a currency id. The model takes it as a parameter
  that returns its result and the requests it sent.
\<close>

type_synonym rate_lookup =
  "carrier \<Rightarrow> txn_context \<Rightarrow> state \<Rightarrow> (error + decimal option \<times> nat) \<times> postage_request list"

definition record_sent :: "postage_request list \<Rightarrow> state \<Rightarrow> state" where
  "record_sent reqs st = st\<lparr>sent := sent st @ reqs\<rparr>"

subsection \<open>The host's write of an order's lines\<close>

text \<open>
  \<^verbatim>\<open>Sale.write([self], {'lines': actions})\<close>: the host applies the actions in the order
  given. \<^verbatim>\<open>('create', values)\<close> stores a new line of this order under a fresh id;
  \<^verbatim>\<open>('delete', ids)\<close> removes the lines with these ids.
\<close>

datatype line_action = Create line_values | Delete "nat list"

definition stored :: "nat \<Rightarrow> line_values \<Rightarrow> sale_line" where
  "stored i v = line_values.extend v (sale_line.fields i)"

fun do_line_action :: "line_action \<Rightarrow> sale_line list \<times> nat \<Rightarrow> sale_line list \<times> nat" where
  "do_line_action (Create v) (ls, n) = (ls @ [stored n v], Suc n)"
| "do_line_action (Delete ids) (ls, n) = (filter (\<lambda>l. line_id l \<notin> set ids) ls, n)"

definition write_lines :: "nat \<Rightarrow> line_action list \<Rightarrow> state \<Rightarrow> state" where
  "write_lines sid actions st =
     (let (ls, n) = fold do_line_action actions (lines (sales st sid), next_line_id st)
      in st\<lparr>sales := (sales st)(sid := (sales st sid)\<lparr>lines := ls\<rparr>), next_line_id := n\<rparr>)"

text \<open>\<^verbatim>\<open>Shipment.write(shipments, values)\<close>: the same change to each shipment listed.\<close>

definition write_shipments :: "nat list \<Rightarrow> (shipment \<Rightarrow> shipment) \<Rightarrow> state \<Rightarrow> state" where
  "write_shipments ids change st =
     st\<lparr>shipments := (\<lambda>i. if i \<in> set ids then change (shipments st i) else shipments st i)\<rparr>"

section \<open>\<^verbatim>\<open>Sale\<close>\<close>

text \<open>
  \<^verbatim>\<open>_get_carrier_context\<close>: the context of the base class, with the order's id under
  \<^verbatim>\<open>'sale'\<close> when the carrier's cost method is endicia. \<open>sid\<close> is \<^verbatim>\<open>self.id\<close>.
\<close>

definition get_carrier_context :: "(sale \<Rightarrow> txn_context) \<Rightarrow> nat \<Rightarrow> sale \<Rightarrow> error + txn_context" where
  "get_carrier_context super_context sid self =
     (case carrier self of
        None \<Rightarrow> Inl AttributeError
      | Some c \<Rightarrow>
          if \<not> carrier_cost_method c = ''endicia'' then Inr (super_context self)
          else Inr ((super_context self)\<lparr>ctx_sale := Some sid\<rparr>))"

text \<open>The line that \<^verbatim>\<open>apply_endicia_shipping\<close> creates.\<close>

definition shipping_line_values :: "carrier \<Rightarrow> mailclass \<Rightarrow> decimal \<Rightarrow> line_values" where
  "shipping_line_values c mc shipment_cost0 =
     \<lparr>line_type = ''line'',
      product = Some (carrier_product c),
      description = mailclass_name mc,
      quantity = 1,
      unit = sale_uom (carrier_product c),
      unit_price = shipment_cost0,
      shipment_cost = Some shipment_cost0,
      amount = shipment_cost0,
      taxes = [],
      sequence = Some 9999\<rparr>"

text \<open>
  \<^verbatim>\<open>apply_endicia_shipping\<close>. The cost is \<^verbatim>\<open>shipment_cost[0]\<close>; \<^verbatim>\<open>not shipment_cost[0]\<close>
  holds for \<^verbatim>\<open>None\<close> and for zero. The ids to delete are read from the order's lines
  before the write.
\<close>

definition apply_endicia_shipping ::
  "rate_lookup \<Rightarrow> (sale \<Rightarrow> txn_context) \<Rightarrow> nat \<Rightarrow> state \<Rightarrow> (error + unit) \<times> state" where
  "apply_endicia_shipping get_sale_price super_context sid st =
     (case carrier (sales st sid) of
        None \<Rightarrow> (Inr (), st)
      | Some c \<Rightarrow>
          if carrier_cost_method c = ''endicia'' then
            (case endicia_mailclass (sales st sid) of
               None \<Rightarrow> (Inl mailclass_missing, st)
             | Some mc \<Rightarrow>
                (case get_carrier_context super_context sid (sales st sid) of
                   Inl e \<Rightarrow> (Inl e, st)
                 | Inr ctx \<Rightarrow>
                    (case get_sale_price c ctx st of
                       (Inl e, reqs) \<Rightarrow> (Inl e, record_sent reqs st)
                     | (Inr price, reqs) \<Rightarrow>
                        (case fst price of
                           None \<Rightarrow> (Inr (), record_sent reqs st)
                         | Some d \<Rightarrow>
                            if d = 0 then (Inr (), record_sent reqs st)
                            else
                              (Inr (),
                               write_lines sid
                                 [Create (shipping_line_values c mc d),
                                  Delete (map line_id
                                    (filter (\<lambda>line. truthy (shipment_cost line))
                                       (lines (sales st sid))))]
                                 (record_sent reqs st))))))
          else (Inr (), st))"

text \<open>\<^verbatim>\<open>update_endicia_shipment_cost\<close>: the loop over the batch stops at the first exception.\<close>

fun update_endicia_shipment_cost ::
  "rate_lookup \<Rightarrow> (sale \<Rightarrow> txn_context) \<Rightarrow> nat list \<Rightarrow> state \<Rightarrow> (error + unit) \<times> state" where
  "update_endicia_shipment_cost get_sale_price super_context [] st = (Inr (), st)"
| "update_endicia_shipment_cost get_sale_price super_context (sid # sids) st =
     (case apply_endicia_shipping get_sale_price super_context sid st of
        (Inl e, st') \<Rightarrow> (Inl e, st')
      | (Inr _, st') \<Rightarrow> update_endicia_shipment_cost get_sale_price super_context sids st')"

text \<open>\<^verbatim>\<open>quote\<close>; \<open>super_quote\<close> is the quotation of the base class.\<close>

definition quote ::
  "(nat list \<Rightarrow> state \<Rightarrow> (error + 'r) \<times> state) \<Rightarrow> rate_lookup \<Rightarrow> (sale \<Rightarrow> txn_context) \<Rightarrow>
   nat list \<Rightarrow> state \<Rightarrow> (error + 'r) \<times> state" where
  "quote super_quote get_sale_price super_context sids st =
     (case super_quote sids st of
        (Inl e, st1) \<Rightarrow> (Inl e, st1)
      | (Inr res, st1) \<Rightarrow>
         (case update_endicia_shipment_cost get_sale_price super_context sids st1 of
            (Inl e, st2) \<Rightarrow> (Inl e, st2)
          | (Inr _, st2) \<Rightarrow> (Inr res, st2)))"

text \<open>
  The quotation in the words of the spec: run the base procedure on the batch, then go
  through the batch once, one order at a time, applying shipping to each from the state
  the one before left, and return the base procedure's result. Once an application has
  failed, the orders after it are passed over.
\<close>

definition spec_apply_next ::
  "rate_lookup \<Rightarrow> (sale \<Rightarrow> txn_context) \<Rightarrow> (error + unit) \<times> state \<Rightarrow> nat \<Rightarrow> (error + unit) \<times> state" where
  "spec_apply_next get_sale_price super_context acc sid =
     (case fst acc of
        Inl e \<Rightarrow> acc
      | Inr _ \<Rightarrow> apply_endicia_shipping get_sale_price super_context sid (snd acc))"

definition spec_quote ::
  "(nat list \<Rightarrow> state \<Rightarrow> (error + 'r) \<times> state) \<Rightarrow> rate_lookup \<Rightarrow> (sale \<Rightarrow> txn_context) \<Rightarrow>
   nat list \<Rightarrow> state \<Rightarrow> (error + 'r) \<times> state" where
  "spec_quote super_quote get_sale_price super_context sids st =
     (let base = super_quote sids st;
          applied = foldl (spec_apply_next get_sale_price super_context) (Inr (), snd base) sids
      in case fst base of
           Inl e \<Rightarrow> base
         | Inr res \<Rightarrow> (case fst applied of Inl e \<Rightarrow> (Inl e, snd applied) | Inr _ \<Rightarrow> (Inr res, snd applied)))"

text \<open>
  The loop of \<^verbatim>\<open>create_shipment\<close>: for each shipment, the rate lookup in the context of
  \<^verbatim>\<open>shipment.get_carrier_context()\<close>, then the write of the cost. \<open>shipment_context\<close> is
  that method, a parameter: it belongs to the shipment's class.
\<close>

fun update_shipment_costs ::
  "rate_lookup \<Rightarrow> (nat \<Rightarrow> state \<Rightarrow> txn_context) \<Rightarrow> carrier \<Rightarrow> nat list \<Rightarrow> state \<Rightarrow>
   (error + unit) \<times> state" where
  "update_shipment_costs get_sale_price shipment_context c [] st = (Inr (), st)"
| "update_shipment_costs get_sale_price shipment_context c (sh # shs) st =
     (case get_sale_price c (shipment_context sh st) st of
        (Inl e, reqs) \<Rightarrow> (Inl e, record_sent reqs st)
      | (Inr price, reqs) \<Rightarrow>
          update_shipment_costs get_sale_price shipment_context c shs
            (write_shipments [sh] (\<lambda>s. s\<lparr>cost := fst price\<rparr>) (record_sent reqs st)))"

text \<open>
  \<^verbatim>\<open>create_shipment\<close>. \<open>super_create_shipment\<close> is the base class's method: it returns
  the shipments it created, or \<^verbatim>\<open>None\<close>. The four tests of the condition read only; the
  model makes the two on \<^verbatim>\<open>None\<close> first, and every way to fail one of the four returns
  the base class's result. \<^verbatim>\<open>self.endicia_mailclass.id\<close> raises when the order has no mail
  class. The order's fields are read after the base class's method has run.
\<close>

definition create_shipment ::
  "(nat \<Rightarrow> string \<Rightarrow> state \<Rightarrow> (error + nat list option) \<times> state) \<Rightarrow> rate_lookup \<Rightarrow>
   (nat \<Rightarrow> state \<Rightarrow> txn_context) \<Rightarrow> nat \<Rightarrow> string \<Rightarrow> state \<Rightarrow> (error + nat list option) \<times> state" where
  "create_shipment super_create_shipment get_sale_price shipment_context sid shipment_type st =
     (case super_create_shipment sid shipment_type st of
        (Inl e, st1) \<Rightarrow> (Inl e, st1)
      | (Inr result, st1) \<Rightarrow>
         (case result of
            None \<Rightarrow> (Inr result, st1)
          | Some shs \<Rightarrow>
             (case carrier (sales st1 sid) of
                None \<Rightarrow> (Inr result, st1)
              | Some c \<Rightarrow>
                 if shipment_type = ''out'' \<and> shs \<noteq> [] \<and> carrier_cost_method c = ''endicia'' then
                   (case endicia_mailclass (sales st1 sid) of
                      None \<Rightarrow> (Inl AttributeError, st1)
                    | Some mc \<Rightarrow>
                       (case update_shipment_costs get_sale_price shipment_context c shs
                               (write_shipments shs
                                  (\<lambda>s. s\<lparr>shipment_endicia_mailclass := Some (mailclass_id mc),
                                         shipment_is_endicia_shipping := is_endicia_shipping (sales st1 sid)\<rparr>)
                                  st1) of
                          (Inl e, st2) \<Rightarrow> (Inl e, st2)
                        | (Inr _, st2) \<Rightarrow> (Inr result, st2)))
                 else (Inr result, st1))))"

text \<open>
  \<^verbatim>\<open>sum(map(lambda line: line.get_weight_for_endicia(), self.lines))\<close>: the weights of the
  lines in their order; the first exception ends the computation.
\<close>

fun line_weights :: "('l \<Rightarrow> error + int) \<Rightarrow> 'l list \<Rightarrow> error + int list" where
  "line_weights weigh [] = Inr []"
| "line_weights weigh (l # ls) =
     (case weigh l of
        Inl e \<Rightarrow> Inl e
      | Inr w \<Rightarrow> (case line_weights weigh ls of Inl e \<Rightarrow> Inl e | Inr ws \<Rightarrow> Inr (w # ws)))"

text \<open>
  \<^verbatim>\<open>get_endicia_shipping_cost\<close>. Parameters next to those of the weight calculator:
  \<open>get_endicia_credentials\<close>, the company's method; \<open>send_request\<close>, the call of the
  rate API; \<open>total_amount\<close>, the reading of \<^verbatim>\<open>PostagePrice.get('TotalAmount')\<close> from the
  response as a \<^verbatim>\<open>Decimal\<close>. The second component is the list of requests sent: none
  until \<^verbatim>\<open>send_request()\<close> is reached. \<open>mailclass_code\<close> is the mail class's field
  \<^verbatim>\<open>value\<close>.
\<close>

definition get_endicia_shipping_cost ::
  "(uom \<Rightarrow> pyfloat \<Rightarrow> uom \<Rightarrow> pyfloat) \<Rightarrow> (pyfloat \<Rightarrow> pyfloat \<Rightarrow> pyfloat) \<Rightarrow> uom list \<Rightarrow>
   (sale \<Rightarrow> error + endicia_credentials) \<Rightarrow> (postage_request \<Rightarrow> error + 'resp) \<Rightarrow>
   ('resp \<Rightarrow> error + decimal) \<Rightarrow> sale \<Rightarrow> (error + decimal) \<times> postage_request list" where
  "get_endicia_shipping_cost compute_qty float_mul uoms get_endicia_credentials send_request
       total_amount self =
     (case get_endicia_credentials self of
        Inl e \<Rightarrow> (Inl e, [])
      | Inr endicia_credentials \<Rightarrow>
         (case endicia_mailclass self of
            None \<Rightarrow> (Inl mailclass_missing, [])
          | Some mc \<Rightarrow>
             (case line_weights (get_weight_for_endicia compute_qty float_mul uoms) (lines self) of
                Inl e \<Rightarrow> (Inl e, [])
              | Inr ws \<Rightarrow>
                 (let calculate_postage_request =
                    \<lparr>req_mailclass = mailclass_code mc,
                     req_weightoz = sum_list ws,
                     req_from_postal_code = warehouse_zip self,
                     req_to_postal_code = shipment_zip self,
                     req_to_country_code = shipment_country_code self,
                     req_accountid = account_id endicia_credentials,
                     req_requesterid = requester_id endicia_credentials,
                     req_passphrase = passphrase endicia_credentials,
                     req_test = usps_test endicia_credentials\<rparr>
                  in case send_request calculate_postage_request of
                       Inl e \<Rightarrow> (Inl e, [calculate_postage_request])
                     | Inr response \<Rightarrow>
                        (case total_amount response of
                           Inl e \<Rightarrow> (Inl e, [calculate_postage_request])
                         | Inr d \<Rightarrow> (Inr d, [calculate_postage_request]))))))"

text \<open>
  Modelled from the spec: the carrier's rate lookup for an order, \<^verbatim>\<open>get_sale_price\<close> of
  the module's carrier class, which is not among the sources. By the spec the applicator's
  rate lookup is the call of the external rate API with the order's total weight,
  addresses and credentials (section 4.1, step 2), and the errors of the weight
  calculator reach the applicator through it (section 4.2): for the order named in the
  context it is the order's \<^verbatim>\<open>get_endicia_shipping_cost\<close>, with the currency \<open>usd\<close>.
  What it does in a context that names no order is left to the parameter
  \<open>other_lookup\<close>.
\<close>

definition carrier_get_sale_price ::
  "(sale \<Rightarrow> (error + decimal) \<times> postage_request list) \<Rightarrow> nat \<Rightarrow> rate_lookup \<Rightarrow> rate_lookup" where
  "carrier_get_sale_price shipping_cost usd other_lookup c ctx st =
     (case ctx_sale ctx of
        None \<Rightarrow> other_lookup c ctx st
      | Some sid \<Rightarrow>
         (case shipping_cost (sales st sid) of
            (Inl e, reqs) \<Rightarrow> (Inl e, reqs)
          | (Inr d, reqs) \<Rightarrow> (Inr (Some d, usd), reqs)))"

text \<open>
  The predicates of the claims: a line is a shipping charge when its shipment cost is
  true in Python's sense, as the deletion reads it; the ids of an order's lines are
  those of a database when they differ from each other and lie below the next id.
\<close>

definition shipping_lines :: "sale_line list \<Rightarrow> sale_line list" where
  "shipping_lines ls = filter (\<lambda>line. truthy (shipment_cost line)) ls"

definition other_lines :: "sale_line list \<Rightarrow> sale_line list" where
  "other_lines ls = filter (\<lambda>line. \<not> truthy (shipment_cost line)) ls"

definition ids_ok :: "state \<Rightarrow> nat \<Rightarrow> bool" where
  "ids_ok st sid =
     (distinct (map line_id (lines (sales st sid))) \<and>
      list_all (\<lambda>l. line_id l < next_line_id st) (lines (sales st sid)))"

section \<open>Concrete records for the examples\<close>

definition oz :: uom where
  "oz = \<lparr>uom_id = 1, symbol = ''oz''\<rparr>"

definition kg :: uom where
  "kg = \<lparr>uom_id = 2, symbol = ''kg''\<rparr>"

definition piece :: uom where
  "piece = \<lparr>uom_id = 3, symbol = ''u''\<rparr>"

definition widget :: "pyfloat option \<Rightarrow> product" where
  "widget w = \<lparr>product_id = 1, name = ''Widget'', product_type = ''goods'', weight = w,
     weight_uom = oz, default_uom = piece, sale_uom = piece\<rparr>"

definition support :: product where
  "support = \<lparr>product_id = 2, name = ''Support'', product_type = ''service'', weight = None,
     weight_uom = oz, default_uom = piece, sale_uom = piece\<rparr>"

definition product_line :: "nat \<Rightarrow> product \<Rightarrow> pyfloat \<Rightarrow> decimal option \<Rightarrow> int option \<Rightarrow> sale_line" where
  "product_line i p q sc sq = \<lparr>line_type = ''line'', product = Some p, description = name p,
     quantity = q, unit = piece, unit_price = 10, shipment_cost = sc, amount = 10 * q,
     taxes = [], sequence = sq, line_id = i\<rparr>"

text \<open>A unit conversion for the examples: pieces stay, a kilogram is 35.27 ounces.\<close>

definition example_compute_qty :: "uom \<Rightarrow> pyfloat \<Rightarrow> uom \<Rightarrow> pyfloat" where
  "example_compute_qty from_uom qty to_uom =
     (if symbol from_uom = ''kg'' \<and> symbol to_uom = ''oz'' then qty * (3527 / 100) else qty)"

definition postage :: product where
  "postage = \<lparr>product_id = 3, name = ''Postage'', product_type = ''service'', weight = None,
     weight_uom = oz, default_uom = piece, sale_uom = piece\<rparr>"

definition usps :: carrier where
  "usps = \<lparr>carrier_cost_method = ''endicia'', carrier_product = postage\<rparr>"

definition courier :: carrier where
  "courier = \<lparr>carrier_cost_method = ''product'', carrier_product = postage\<rparr>"

definition priority :: mailclass where
  "priority = \<lparr>mailclass_id = 4, mailclass_name = ''Priority Mail'', mailclass_code = ''Priority''\<rparr>"

definition order :: "carrier option \<Rightarrow> mailclass option \<Rightarrow> sale_line list \<Rightarrow> sale" where
  "order c mc ls = \<lparr>carrier = c, endicia_mailclass = mc, is_endicia_shipping = True, lines = ls,
     warehouse_zip = ''33101'', shipment_zip = ''10001'', shipment_country_code = ''US''\<rparr>"

definition blank_shipment :: shipment where
  "blank_shipment = \<lparr>shipment_endicia_mailclass = None, shipment_is_endicia_shipping = False,
     cost = None\<rparr>"

text \<open>A database in which every id names the order \<open>s\<close>; the next line id is 10.\<close>

definition db :: "sale \<Rightarrow> state" where
  "db s = \<lparr>sales = (\<lambda>_. s), shipments = (\<lambda>_. blank_shipment), next_line_id = 10, sent = []\<rparr>"

definition no_context :: txn_context where
  "no_context = \<lparr>ctx_sale = None, ctx_shipment = None\<rparr>"

text \<open>A rate lookup that answers every call with the same cost and sends nothing.\<close>

definition fixed_rate :: "decimal option \<Rightarrow> rate_lookup" where
  "fixed_rate d c ctx st = (Inr (d, 1), [])"

text \<open>
  Two rate lookups that read their context and the database: one prices order 1 at
  zero and everything else at three; the other charges four and one more for every
  line of the order that is not a shipping charge.
\<close>

definition rate_for_others :: rate_lookup where
  "rate_for_others c ctx st = (Inr (if ctx_sale ctx = Some 1 then Some 0 else Some 3, 1), [])"

definition rate_per_line :: rate_lookup where
  "rate_per_line c ctx st =
     (case ctx_sale ctx of
        None \<Rightarrow> (Inr (Some 3, 1), [])
      | Some sid \<Rightarrow> (Inr (Some (4 + of_nat (length (other_lines (lines (sales st sid))))), 1), []))"

text \<open>
  Collaborators for the examples: the company has credentials, and the rate API
  answers a request with three dollars and half a dollar per ounce.
\<close>

definition example_credentials :: "sale \<Rightarrow> error + endicia_credentials" where
  "example_credentials s =
     Inr \<lparr>account_id = ''123456'', requester_id = ''abcd'', passphrase = ''secret'',
          usps_test = True\<rparr>"

definition example_send_request :: "postage_request \<Rightarrow> error + decimal" where
  "example_send_request req = Inr (3 + of_int (req_weightoz req) / 2)"

definition example_total_amount :: "decimal \<Rightarrow> error + decimal" where
  "example_total_amount response = Inr response"

text \<open>
  A line has the highest sequence value of a list when no line of the list that has a
  sequence value has a greater one.
\<close>

definition highest_sequence :: "sale_line \<Rightarrow> sale_line list \<Rightarrow> bool" where
  "highest_sequence new ls =
     list_all (\<lambda>l. case sequence l of
                     None \<Rightarrow> True
                   | Some a \<Rightarrow> (case sequence new of None \<Rightarrow> False | Some b \<Rightarrow> a \<le> b)) ls"

text \<open>
  Lines for the examples: a product line with one earlier shipping charge, a product
  line of sequence 10000, a product line with two earlier shipping charges, and a
  product weighed in kilograms.
\<close>

definition basket :: "sale_line list" where
  "basket = [product_line 1 (widget (Some 2)) 3 None (Some 1),
             product_line 2 postage 1 (Some 7) (Some 2)]"

definition late_basket :: "sale_line list" where
  "late_basket = [product_line 1 (widget (Some 2)) 3 None (Some 10000)]"

definition double_basket :: "sale_line list" where
  "double_basket = [product_line 1 (widget (Some 2)) 3 None (Some 1),
                    product_line 2 postage 1 (Some 7) (Some 2),
                    product_line 3 postage 1 (Some 8) (Some 3)]"

definition brick :: product where
  "brick = \<lparr>product_id = 5, name = ''Brick'', product_type = ''goods'', weight = Some 1,
     weight_uom = kg, default_uom = piece, sale_uom = piece\<rparr>"

text \<open>
  The shipments of a state with their costs blanked: two states with the same
  \<open>without_costs\<close> differ in their shipments' costs at most.
\<close>

definition without_costs :: "state \<Rightarrow> nat \<Rightarrow> shipment" where
  "without_costs st = (\<lambda>i. (shipments st i)\<lparr>cost := None\<rparr>)"

text \<open>
  Collaborators for the examples of quotation and shipment: a base quotation that
  returns the size of the batch, a base \<^verbatim>\<open>create_shipment\<close> that returns the shipments 1
  and 2, the context of a shipment, and a rate lookup that charges by the shipment
  named in the context.
\<close>

definition confirm_all :: "nat list \<Rightarrow> state \<Rightarrow> (error + nat) \<times> state" where
  "confirm_all sids st = (Inr (length sids), st)"

definition ship_two :: "nat \<Rightarrow> string \<Rightarrow> state \<Rightarrow> (error + nat list option) \<times> state" where
  "ship_two sid shipment_type st = (Inr (Some [1, 2]), st)"

definition by_shipment :: "nat \<Rightarrow> state \<Rightarrow> txn_context" where
  "by_shipment sh st = \<lparr>ctx_sale = None, ctx_shipment = Some sh\<rparr>"

definition rate_by_shipment :: rate_lookup where
  "rate_by_shipment c ctx st = (Inr (map_option (\<lambda>i. 3 + of_nat i) (ctx_shipment ctx), 1), [])"

definition unweighed_basket :: "sale_line list" where
  "unweighed_basket = [product_line 1 (widget (Some 2)) 3 None (Some 1),
                       product_line 2 (widget None) 1 None (Some 2)]"

section \<open>The weight calculator\<close>

text \<open>
  C10. A service-type line weighs zero and raises nothing, whatever its product's unit
  weight is, also when there is none: the service test comes before the weight test.
\<close>

theorem service_line_weighs_zero:
  "product l = Some p \<Longrightarrow> product_type p = ''service'' \<Longrightarrow>
   get_weight_for_endicia compute_qty float_mul uoms l = Inr 0"
  by (simp add: get_weight_for_endicia_def)

theorem service_line_weighs_zero_witness:
  "product (product_line 7 support 3 None None) = Some support \<and>
   product_type support = ''service'' \<and> weight support = None \<and>
   get_weight_for_endicia example_compute_qty (\<lambda>a b. a * b) [] (product_line 7 support 3 None None) = Inr 0"
  using service_line_weighs_zero [of "product_line 7 support 3 None None" support
      example_compute_qty "\<lambda>a b. a * b" "[]"]
  by (simp add: product_line_def support_def)

lemma missing_weight_raises:
  "product l = Some p \<Longrightarrow> product_type p \<noteq> ''service'' \<Longrightarrow> \<not> truthy (weight p) \<Longrightarrow>
   get_weight_for_endicia compute_qty float_mul uoms l = Inl (weight_required (name p))"
  by (cases "weight p") (simp_all add: get_weight_for_endicia_def)

text \<open>
  C3. For a line with a product: a service-type line weighs zero; any other line, whose
  product has a unit weight, weighs the ceiling of its raw weight in ounces, where the
  quantity is converted into the product's default unit when the line's unit differs,
  multiplied by the unit weight, and converted into ounces when the weight unit is not
  ounces (\<open>spec_line_weight\<close> is this computation in the spec's words). The result is
  never below the raw weight and less than one above it; a raw weight of 2.01 ounces
  gives 3 and one of exactly 2 gives 2.
\<close>

theorem weight_is_ceiling_of_ounces:
  assumes "product l = Some p"
    and "product_type p \<noteq> ''service'' \<longrightarrow> weight p = Some w \<and> w \<noteq> 0"
    and "product_type p \<noteq> ''service'' \<and> symbol (weight_uom p) \<noteq> ''oz''
         \<longrightarrow> search_symbol uoms ''oz'' = [ounce]"
  shows "get_weight_for_endicia compute_qty float_mul uoms l
           = Inr (spec_line_weight compute_qty float_mul ounce l p w) \<and>
         (product_type p \<noteq> ''service'' \<longrightarrow>
            spec_raw_ounces compute_qty float_mul ounce l p w
              \<le> of_int (spec_line_weight compute_qty float_mul ounce l p w) \<and>
            of_int (spec_line_weight compute_qty float_mul ounce l p w)
              < spec_raw_ounces compute_qty float_mul ounce l p w + 1) \<and>
         (product_type p \<noteq> ''service'' \<and>
          spec_raw_ounces compute_qty float_mul ounce l p w = 201 / 100
            \<longrightarrow> get_weight_for_endicia compute_qty float_mul uoms l = Inr 3) \<and>
         (product_type p \<noteq> ''service'' \<and>
          spec_raw_ounces compute_qty float_mul ounce l p w = 2
            \<longrightarrow> get_weight_for_endicia compute_qty float_mul uoms l = Inr 2)"
proof -
  have eq: "get_weight_for_endicia compute_qty float_mul uoms l
           = Inr (spec_line_weight compute_qty float_mul ounce l p w)"
    using assms
    by (auto simp: get_weight_for_endicia_def spec_line_weight_def spec_raw_ounces_def
        spec_quantity_def Let_def)
  have c1: "\<lceil>201 / 100 :: rat\<rceil> = 3" by (simp add: ceiling_eq_iff)
  have c2: "\<lceil>2 :: rat\<rceil> = 2" by simp
  have up: "of_int \<lceil>x\<rceil> < x + 1" for x :: rat
    using ceiling_correct [of x] by simp
  let ?raw = "spec_raw_ounces compute_qty float_mul ounce l p w"
  have bounds: "product_type p \<noteq> ''service'' \<longrightarrow>
      ?raw \<le> of_int (spec_line_weight compute_qty float_mul ounce l p w) \<and>
      of_int (spec_line_weight compute_qty float_mul ounce l p w) < ?raw + 1"
    by (simp add: spec_line_weight_def up)
  have three: "product_type p \<noteq> ''service'' \<and> ?raw = 201 / 100
      \<longrightarrow> Inr (spec_line_weight compute_qty float_mul ounce l p w) = (Inr 3 :: error + int)"
  proof
    assume a: "product_type p \<noteq> ''service'' \<and> ?raw = 201 / 100"
    then have "spec_line_weight compute_qty float_mul ounce l p w = \<lceil>201 / 100 :: rat\<rceil>"
      by (simp only: spec_line_weight_def if_False)
    then show "Inr (spec_line_weight compute_qty float_mul ounce l p w) = (Inr 3 :: error + int)"
      by (simp only: c1)
  qed
  have two: "product_type p \<noteq> ''service'' \<and> ?raw = 2
      \<longrightarrow> Inr (spec_line_weight compute_qty float_mul ounce l p w) = (Inr 2 :: error + int)"
  proof
    assume a: "product_type p \<noteq> ''service'' \<and> ?raw = 2"
    then have "spec_line_weight compute_qty float_mul ounce l p w = \<lceil>2 :: rat\<rceil>"
      by (simp only: spec_line_weight_def if_False)
    then show "Inr (spec_line_weight compute_qty float_mul ounce l p w) = (Inr 2 :: error + int)"
      by (simp only: c2)
  qed
  from bounds three two show ?thesis unfolding eq by blast
qed

theorem weight_is_ceiling_of_ounces_witness:
  "spec_raw_ounces example_compute_qty (\<lambda>a b. a * b) oz
      (product_line 1 (widget (Some (67 / 100))) 3 None None) (widget (Some (67 / 100))) (67 / 100)
     = 201 / 100 \<and>
   get_weight_for_endicia example_compute_qty (\<lambda>a b. a * b) [oz, kg, piece]
      (product_line 1 (widget (Some (67 / 100))) 3 None None) = Inr 3 \<and>
   spec_raw_ounces example_compute_qty (\<lambda>a b. a * b) oz
      (product_line 1 (widget (Some (1 / 2))) 4 None None) (widget (Some (1 / 2))) (1 / 2) = 2 \<and>
   get_weight_for_endicia example_compute_qty (\<lambda>a b. a * b) [oz, kg, piece]
      (product_line 1 (widget (Some (1 / 2))) 4 None None) = Inr 2 \<and>
   spec_raw_ounces example_compute_qty (\<lambda>a b. a * b) oz
      (product_line 1 brick 1 None None) brick 1 = 3527 / 100 \<and>
   get_weight_for_endicia example_compute_qty (\<lambda>a b. a * b) [oz, kg, piece]
      (product_line 1 brick 1 None None) = Inr 36"
proof -
  let ?cq = example_compute_qty
  let ?fm = "\<lambda>a b :: rat. a * b"
  let ?uoms = "[oz, kg, piece]"
  have s: "search_symbol ?uoms ''oz'' = [oz]"
    by (simp add: search_symbol_def oz_def kg_def piece_def)
  let ?la = "product_line 1 (widget (Some (67 / 100))) 3 None None"
  let ?pa = "widget (Some (67 / 100))"
  have a1: "product ?la = Some ?pa" by (simp add: product_line_def)
  have a2: "product_type ?pa \<noteq> ''service'' \<longrightarrow> weight ?pa = Some (67 / 100) \<and> (67 / 100 :: rat) \<noteq> 0"
    by (simp add: widget_def)
  have a3: "product_type ?pa \<noteq> ''service''" by (simp add: widget_def)
  have a4: "spec_raw_ounces ?cq ?fm oz ?la ?pa (67 / 100) = 201 / 100"
    by (simp add: spec_raw_ounces_def spec_quantity_def product_line_def widget_def oz_def piece_def)
  from weight_is_ceiling_of_ounces
         [where l = ?la and p = ?pa and w = "67 / 100" and uoms = ?uoms and ounce = oz
            and compute_qty = ?cq and float_mul = ?fm, OF a1 a2] s a3 a4
  have ra: "get_weight_for_endicia ?cq ?fm ?uoms ?la = Inr 3" by blast
  let ?lb = "product_line 1 (widget (Some (1 / 2))) 4 None None"
  let ?pb = "widget (Some (1 / 2))"
  have b1: "product ?lb = Some ?pb" by (simp add: product_line_def)
  have b2: "product_type ?pb \<noteq> ''service'' \<longrightarrow> weight ?pb = Some (1 / 2) \<and> (1 / 2 :: rat) \<noteq> 0"
    by (simp add: widget_def)
  have b3: "product_type ?pb \<noteq> ''service''" by (simp add: widget_def)
  have b4: "spec_raw_ounces ?cq ?fm oz ?lb ?pb (1 / 2) = 2"
    by (simp add: spec_raw_ounces_def spec_quantity_def product_line_def widget_def oz_def piece_def)
  from weight_is_ceiling_of_ounces
         [where l = ?lb and p = ?pb and w = "1 / 2" and uoms = ?uoms and ounce = oz
            and compute_qty = ?cq and float_mul = ?fm, OF b1 b2] s b3 b4
  have rb: "get_weight_for_endicia ?cq ?fm ?uoms ?lb = Inr 2" by blast
  let ?lc = "product_line 1 brick 1 None None"
  have c1: "product ?lc = Some brick" by (simp add: product_line_def)
  have c2: "product_type brick \<noteq> ''service'' \<longrightarrow> weight brick = Some 1 \<and> (1 :: rat) \<noteq> 0"
    by (simp add: brick_def)
  have c4: "spec_raw_ounces ?cq ?fm oz ?lc brick 1 = 3527 / 100"
    by (simp add: spec_raw_ounces_def spec_quantity_def product_line_def brick_def oz_def kg_def
        piece_def example_compute_qty_def)
  have c5: "spec_line_weight ?cq ?fm oz ?lc brick 1 = 36"
    unfolding spec_line_weight_def c4 by (simp add: brick_def ceiling_eq_iff)
  from weight_is_ceiling_of_ounces
         [where l = ?lc and p = brick and w = 1 and uoms = ?uoms and ounce = oz
            and compute_qty = ?cq and float_mul = ?fm, OF c1 c2] s c5
  have rc: "get_weight_for_endicia ?cq ?fm ?uoms ?lc = Inr 36" by simp
  from a4 ra b4 rb c4 rc show ?thesis by blast
qed

section \<open>Facts about the host's writes\<close>

lemma stored_fields [simp]:
  "line_id (stored i v) = i"
  "line_type (stored i v) = line_type v"
  "product (stored i v) = product v"
  "description (stored i v) = description v"
  "quantity (stored i v) = quantity v"
  "unit (stored i v) = unit v"
  "unit_price (stored i v) = unit_price v"
  "shipment_cost (stored i v) = shipment_cost v"
  "amount (stored i v) = amount v"
  "taxes (stored i v) = taxes v"
  "sequence (stored i v) = sequence v"
  by (cases v; simp add: stored_def line_values.defs sale_line.defs)+

lemma write_lines_create_delete:
  "write_lines sid [Create v, Delete ids] st =
     st\<lparr>sales := (sales st)(sid := (sales st sid)
            \<lparr>lines := filter (\<lambda>l. line_id l \<notin> set ids) (lines (sales st sid) @ [stored (next_line_id st) v])\<rparr>),
        next_line_id := Suc (next_line_id st)\<rparr>"
  by (simp add: write_lines_def)

lemma delete_flagged:
  assumes "distinct (map line_id ls)"
  shows "filter (\<lambda>l. line_id l \<notin> set (map line_id (filter P ls))) ls = filter (\<lambda>l. \<not> P l) ls"
proof (rule filter_cong [OF refl])
  fix l assume l: "l \<in> set ls"
  from assms have inj: "inj_on line_id (set ls)" by (simp add: distinct_map)
  show "(line_id l \<notin> set (map line_id (filter P ls))) = (\<not> P l)"
  proof
    assume a: "line_id l \<notin> set (map line_id (filter P ls))"
    show "\<not> P l"
    proof
      assume "P l"
      with l have "l \<in> set (filter P ls)" by simp
      then have "line_id l \<in> set (map line_id (filter P ls))" by (simp only: set_map image_eqI)
      with a show False by simp
    qed
  next
    assume np: "\<not> P l"
    show "line_id l \<notin> set (map line_id (filter P ls))"
    proof
      assume "line_id l \<in> set (map line_id (filter P ls))"
      then obtain l' where l': "l' \<in> set ls" "P l'" "line_id l' = line_id l" by auto
      with inj l have "l' = l" by (auto dest: inj_onD)
      with l' np show False by simp
    qed
  qed
qed

section \<open>Applying shipping to an order\<close>

lemma apply_reaches_write:
  assumes "carrier (sales st sid) = Some c" and "carrier_cost_method c = ''endicia''"
    and "endicia_mailclass (sales st sid) = Some mc"
    and "get_sale_price c ((super_context (sales st sid))\<lparr>ctx_sale := Some sid\<rparr>) st = (Inr (Some d, cur), reqs)"
    and "d \<noteq> 0"
  shows "apply_endicia_shipping get_sale_price super_context sid st =
           (Inr (),
            write_lines sid
              [Create (shipping_line_values c mc d),
               Delete (map line_id (shipping_lines (lines (sales st sid))))]
              (record_sent reqs st))"
  using assms
  by (simp add: apply_endicia_shipping_def get_carrier_context_def shipping_lines_def)

lemma lines_after_write:
  assumes "ids_ok st sid"
  shows "lines (sales (write_lines sid
              [Create v, Delete (map line_id (shipping_lines (lines (sales st sid))))]
              (record_sent reqs st)) sid)
         = other_lines (lines (sales st sid)) @ [stored (next_line_id st) v]"
proof -
  let ?ls = "lines (sales st sid)"
  let ?ids = "map line_id (shipping_lines ?ls)"
  from assms have d: "distinct (map line_id ?ls)"
    and fresh: "\<forall>l\<in>set ?ls. line_id l < next_line_id st"
    by (simp_all add: ids_ok_def list_all_iff)
  have "next_line_id st \<notin> set ?ids"
    using fresh by (auto simp: shipping_lines_def)
  moreover have "filter (\<lambda>l. line_id l \<notin> set ?ids) ?ls = other_lines ?ls"
    unfolding shipping_lines_def other_lines_def by (rule delete_flagged [OF d])
  ultimately show ?thesis
    by (simp add: write_lines_create_delete record_sent_def)
qed

text \<open>
  C1, as amended. On an order whose carrier's cost method is endicia, with a mail class,
  when the rate lookup returns a positive cost, applying shipping succeeds, removes every
  line flagged as a shipping charge and appends exactly one line: quantity 1, the unit
  the carrier product's sale unit, the description the mail class's name, unit price,
  amount and shipment cost the returned cost, no taxes, sequence 9999. The new line has
  the highest sequence value of the order when no remaining line has one above 9999.
\<close>

theorem apply_endicia_shipping_replaces_line:
  assumes "carrier (sales st sid) = Some c" and "carrier_cost_method c = ''endicia''"
    and "endicia_mailclass (sales st sid) = Some mc"
    and "get_sale_price c ((super_context (sales st sid))\<lparr>ctx_sale := Some sid\<rparr>) st = (Inr (Some d, cur), reqs)"
    and "0 < d"
    and "ids_ok st sid"
  shows "\<exists>new st'.
           apply_endicia_shipping get_sale_price super_context sid st = (Inr (), st') \<and>
           lines (sales st' sid) = other_lines (lines (sales st sid)) @ [new] \<and>
           quantity new = 1 \<and>
           unit new = sale_uom (carrier_product c) \<and>
           description new = mailclass_name mc \<and>
           unit_price new = d \<and> amount new = d \<and> shipment_cost new = Some d \<and>
           taxes new = [] \<and>
           sequence new = Some 9999 \<and>
           (list_all (\<lambda>l. case sequence l of None \<Rightarrow> True | Some a \<Rightarrow> a \<le> 9999)
              (other_lines (lines (sales st sid)))
            \<longrightarrow> highest_sequence new (lines (sales st' sid)))"
proof -
  let ?new = "stored (next_line_id st) (shipping_line_values c mc d)"
  let ?st' = "write_lines sid
              [Create (shipping_line_values c mc d),
               Delete (map line_id (shipping_lines (lines (sales st sid))))]
              (record_sent reqs st)"
  from assms have run: "apply_endicia_shipping get_sale_price super_context sid st = (Inr (), ?st')"
    by (intro apply_reaches_write) simp_all
  have ls: "lines (sales ?st' sid) = other_lines (lines (sales st sid)) @ [?new]"
    by (rule lines_after_write [OF assms(6)])
  have fields: "quantity ?new = 1" "unit ?new = sale_uom (carrier_product c)"
    "description ?new = mailclass_name mc" "unit_price ?new = d" "amount ?new = d"
    "shipment_cost ?new = Some d" "taxes ?new = []" "sequence ?new = Some 9999"
    by (simp_all add: shipping_line_values_def)
  have top: "list_all (\<lambda>l. case sequence l of None \<Rightarrow> True | Some a \<Rightarrow> a \<le> 9999)
              (other_lines (lines (sales st sid)))
            \<longrightarrow> highest_sequence ?new (lines (sales ?st' sid))"
    unfolding ls highest_sequence_def
    by (auto simp: list_all_iff shipping_line_values_def split: option.splits)
  from run ls fields top show ?thesis by blast
qed

lemmas example_defs = db_def order_def usps_def courier_def priority_def postage_def widget_def
  support_def product_line_def piece_def oz_def kg_def no_context_def fixed_rate_def
  blank_shipment_def basket_def

theorem apply_endicia_shipping_replaces_line_witness:
  "carrier (sales (db (order (Some usps) (Some priority) basket)) 1) = Some usps \<and>
   carrier_cost_method usps = ''endicia'' \<and>
   endicia_mailclass (sales (db (order (Some usps) (Some priority) basket)) 1) = Some priority \<and>
   (0::rat) < 5 \<and>
   ids_ok (db (order (Some usps) (Some priority) basket)) 1 \<and>
   (\<exists>new st'.
      apply_endicia_shipping (fixed_rate (Some 5)) (\<lambda>_. no_context) 1
          (db (order (Some usps) (Some priority) basket)) = (Inr (), st') \<and>
      lines (sales st' 1) = [product_line 1 (widget (Some 2)) 3 None (Some 1), new] \<and>
      quantity new = 1 \<and> unit new = piece \<and> description new = ''Priority Mail'' \<and>
      unit_price new = 5 \<and> amount new = 5 \<and> shipment_cost new = Some 5 \<and> taxes new = [] \<and>
      sequence new = Some 9999 \<and> highest_sequence new (lines (sales st' 1)))"
proof -
  let ?st = "db (order (Some usps) (Some priority) basket)"
  have h1: "carrier (sales ?st 1) = Some usps" by (simp add: db_def order_def)
  have h2: "carrier_cost_method usps = ''endicia''" by (simp add: usps_def)
  have h3: "endicia_mailclass (sales ?st 1) = Some priority" by (simp add: db_def order_def)
  have h4: "fixed_rate (Some 5) usps (((\<lambda>_. no_context) (sales ?st 1))\<lparr>ctx_sale := Some 1\<rparr>) ?st
              = (Inr (Some 5, 1), [])"
    by (simp add: fixed_rate_def)
  have h5: "(0::rat) < 5" by simp
  have h6: "ids_ok ?st 1" by (simp add: ids_ok_def example_defs)
  have o: "other_lines (lines (sales ?st 1)) = [product_line 1 (widget (Some 2)) 3 None (Some 1)]"
    by (simp add: other_lines_def example_defs)
  have u: "sale_uom (carrier_product usps) = piece" "mailclass_name priority = ''Priority Mail''"
    by (simp_all add: example_defs)
  have s: "list_all (\<lambda>l. case sequence l of None \<Rightarrow> True | Some a \<Rightarrow> a \<le> 9999)
              (other_lines (lines (sales ?st 1)))"
    unfolding o by (simp add: product_line_def)
  from apply_endicia_shipping_replaces_line
         [where super_context = "\<lambda>_. no_context" and get_sale_price = "fixed_rate (Some 5)"
            and cur = 1 and reqs = "[]", OF h1 h2 h3 _ h5 h6] h4 s
  have "\<exists>new st'.
      apply_endicia_shipping (fixed_rate (Some 5)) (\<lambda>_. no_context) 1 ?st = (Inr (), st') \<and>
      lines (sales st' 1) = [product_line 1 (widget (Some 2)) 3 None (Some 1), new] \<and>
      quantity new = 1 \<and> unit new = piece \<and> description new = ''Priority Mail'' \<and>
      unit_price new = 5 \<and> amount new = 5 \<and> shipment_cost new = Some 5 \<and> taxes new = [] \<and>
      sequence new = Some 9999 \<and> highest_sequence new (lines (sales st' 1))"
    unfolding o u by auto
  with h1 h2 h3 h5 h6 show ?thesis by simp
qed

text \<open>
  C1 as stated fails: next to a line of sequence 10000 the new line, of sequence 9999,
  does not have the highest sequence value.
\<close>

theorem shipping_line_not_last_counterexample:
  "carrier (sales (db (order (Some usps) (Some priority) late_basket)) 1) = Some usps \<and>
   carrier_cost_method usps = ''endicia'' \<and>
   endicia_mailclass (sales (db (order (Some usps) (Some priority) late_basket)) 1) = Some priority \<and>
   fixed_rate (Some 5) usps \<lparr>ctx_sale = Some 1, ctx_shipment = None\<rparr>
      (db (order (Some usps) (Some priority) late_basket)) = (Inr (Some 5, 1), []) \<and>
   (0::rat) < 5 \<and>
   fst (apply_endicia_shipping (fixed_rate (Some 5)) (\<lambda>_. no_context) 1
          (db (order (Some usps) (Some priority) late_basket))) = Inr () \<and>
   map sequence (lines (sales (snd (apply_endicia_shipping (fixed_rate (Some 5)) (\<lambda>_. no_context) 1
          (db (order (Some usps) (Some priority) late_basket)))) 1)) = [Some 10000, Some 9999] \<and>
   \<not> highest_sequence
       (last (lines (sales (snd (apply_endicia_shipping (fixed_rate (Some 5)) (\<lambda>_. no_context) 1
          (db (order (Some usps) (Some priority) late_basket)))) 1)))
       (lines (sales (snd (apply_endicia_shipping (fixed_rate (Some 5)) (\<lambda>_. no_context) 1
          (db (order (Some usps) (Some priority) late_basket)))) 1))"
  by (simp add: apply_endicia_shipping_def get_carrier_context_def write_lines_def record_sent_def
      highest_sequence_def shipping_line_values_def example_defs late_basket_def)

lemma record_sent_fields [simp]:
  "sales (record_sent reqs st) = sales st"
  "shipments (record_sent reqs st) = shipments st"
  "next_line_id (record_sent reqs st) = next_line_id st"
  "sent (record_sent reqs st) = sent st @ reqs"
  by (simp_all add: record_sent_def)

lemma record_sent_nothing [simp]: "record_sent [] st = st"
  by (simp add: record_sent_def)

text \<open>
  C2. On an order whose carrier's cost method is endicia and that has no mail class,
  applying shipping fails with \<open>mailclass_missing\<close> and leaves the whole state as it
  was: the lines are unchanged and no request was sent, whatever the rate lookup would
  do. \<^verbatim>\<open>get_endicia_shipping_cost\<close> sends no request for such an order either, and fails
  with \<open>mailclass_missing\<close> once the credentials are there.
\<close>

theorem missing_mailclass_aborts:
  assumes "carrier (sales st sid) = Some c" and "carrier_cost_method c = ''endicia''"
    and "endicia_mailclass (sales st sid) = None"
  shows "apply_endicia_shipping get_sale_price super_context sid st = (Inl mailclass_missing, st) \<and>
         snd (get_endicia_shipping_cost compute_qty float_mul uoms get_endicia_credentials
                send_request total_amount (sales st sid)) = [] \<and>
         (\<forall>cr. get_endicia_credentials (sales st sid) = Inr cr \<longrightarrow>
            fst (get_endicia_shipping_cost compute_qty float_mul uoms get_endicia_credentials
                   send_request total_amount (sales st sid)) = Inl mailclass_missing)"
  using assms
  by (auto simp: apply_endicia_shipping_def get_endicia_shipping_cost_def split: sum.splits)

theorem missing_mailclass_aborts_witness:
  "carrier (sales (db (order (Some usps) None basket)) 1) = Some usps \<and>
   carrier_cost_method usps = ''endicia'' \<and>
   endicia_mailclass (sales (db (order (Some usps) None basket)) 1) = None \<and>
   apply_endicia_shipping (fixed_rate (Some 5)) (\<lambda>_. no_context) 1
      (db (order (Some usps) None basket))
     = (Inl mailclass_missing, db (order (Some usps) None basket)) \<and>
   get_endicia_shipping_cost example_compute_qty (\<lambda>a b. a * b) [oz, kg, piece]
      example_credentials example_send_request example_total_amount
      (sales (db (order (Some usps) None basket)) 1)
     = (Inl mailclass_missing, [])"
proof -
  let ?st = "db (order (Some usps) None basket)"
  have h1: "carrier (sales ?st 1) = Some usps" by (simp add: db_def order_def)
  have h2: "carrier_cost_method usps = ''endicia''" by (simp add: usps_def)
  have h3: "endicia_mailclass (sales ?st 1) = None" by (simp add: db_def order_def)
  have h4: "\<exists>cr. example_credentials (sales ?st 1) = Inr cr"
    by (simp add: example_credentials_def)
  note run = missing_mailclass_aborts
    [where get_sale_price = "fixed_rate (Some 5)" and super_context = "\<lambda>_. no_context"
       and compute_qty = example_compute_qty and float_mul = "\<lambda>a b. a * b"
       and uoms = "[oz, kg, piece]" and get_endicia_credentials = example_credentials
       and send_request = example_send_request and total_amount = example_total_amount,
     OF h1 h2 h3]
  from run h4 have "get_endicia_shipping_cost example_compute_qty (\<lambda>a b. a * b) [oz, kg, piece]
      example_credentials example_send_request example_total_amount (sales ?st 1)
     = (Inl mailclass_missing, [])"
    by (metis prod.collapse)
  with run h1 h2 h3 show ?thesis by blast
qed

text \<open>
  C9. On an order without a carrier, or whose carrier's cost method is not endicia,
  applying shipping returns normally and leaves the whole state as it was: no line is
  changed and no request sent, whatever the rate lookup would do, and no error is
  raised, with or without a mail class.
\<close>

theorem other_carrier_is_noop:
  assumes "carrier (sales st sid) = None \<or>
           (\<exists>c. carrier (sales st sid) = Some c \<and> carrier_cost_method c \<noteq> ''endicia'')"
  shows "apply_endicia_shipping get_sale_price super_context sid st = (Inr (), st)"
  using assms by (auto simp: apply_endicia_shipping_def)

theorem other_carrier_is_noop_witness:
  "carrier (sales (db (order None None basket)) 1) = None \<and>
   apply_endicia_shipping (fixed_rate (Some 5)) (\<lambda>_. no_context) 1 (db (order None None basket))
     = (Inr (), db (order None None basket)) \<and>
   carrier (sales (db (order (Some courier) None basket)) 1) = Some courier \<and>
   carrier_cost_method courier \<noteq> ''endicia'' \<and>
   endicia_mailclass (sales (db (order (Some courier) None basket)) 1) = None \<and>
   apply_endicia_shipping (fixed_rate (Some 5)) (\<lambda>_. no_context) 1
      (db (order (Some courier) None basket))
     = (Inr (), db (order (Some courier) None basket))"
proof -
  have a: "carrier (sales (db (order None None basket)) 1) = None"
    by (simp add: db_def order_def)
  have b: "carrier (sales (db (order (Some courier) None basket)) 1) = Some courier"
    "carrier_cost_method courier \<noteq> ''endicia''"
    "endicia_mailclass (sales (db (order (Some courier) None basket)) 1) = None"
    by (simp_all add: db_def order_def courier_def)
  from b have b': "carrier (sales (db (order (Some courier) None basket)) 1) = None \<or>
      (\<exists>c. carrier (sales (db (order (Some courier) None basket)) 1) = Some c \<and>
           carrier_cost_method c \<noteq> ''endicia'')"
    by simp
  from a have a': "carrier (sales (db (order None None basket)) 1) = None \<or>
      (\<exists>c. carrier (sales (db (order None None basket)) 1) = Some c \<and>
           carrier_cost_method c \<noteq> ''endicia'')"
    by simp
  from other_carrier_is_noop [OF a', of "fixed_rate (Some 5)" "\<lambda>_. no_context"]
    other_carrier_is_noop [OF b', of "fixed_rate (Some 5)" "\<lambda>_. no_context"] a b
  show ?thesis by blast
qed

text \<open>
  C4, as amended. When the cost that the rate lookup returns to the call made for this
  order is zero or empty, applying shipping changes no line: the orders, their lines
  among them, and the next line id are the same before and after. What the lookup
  returns for another carrier, in another context or in another state plays no part.
\<close>

theorem zero_or_empty_cost_keeps_lines:
  assumes "\<And>c mc p reqs.
             carrier (sales st sid) = Some c \<Longrightarrow> carrier_cost_method c = ''endicia'' \<Longrightarrow>
             endicia_mailclass (sales st sid) = Some mc \<Longrightarrow>
             get_sale_price c ((super_context (sales st sid))\<lparr>ctx_sale := Some sid\<rparr>) st = (Inr p, reqs) \<Longrightarrow>
             \<not> truthy (fst p)"
  shows "sales (snd (apply_endicia_shipping get_sale_price super_context sid st)) = sales st \<and>
         next_line_id (snd (apply_endicia_shipping get_sale_price super_context sid st)) = next_line_id st"
proof (cases "carrier (sales st sid)")
  case None
  then show ?thesis by (simp add: apply_endicia_shipping_def)
next
  case (Some c)
  show ?thesis
  proof (cases "carrier_cost_method c = ''endicia'' \<and> endicia_mailclass (sales st sid) \<noteq> None")
    case False
    with Some show ?thesis by (auto simp: apply_endicia_shipping_def)
  next
    case True
    then obtain mc where mc: "endicia_mailclass (sales st sid) = Some mc" by auto
    let ?ctx = "(super_context (sales st sid))\<lparr>ctx_sale := Some sid\<rparr>"
    obtain r reqs where look: "get_sale_price c ?ctx st = (r, reqs)" by (cases "get_sale_price c ?ctx st")
    show ?thesis
    proof (cases r)
      case (Inl e)
      with Some True mc look show ?thesis
        by (simp add: apply_endicia_shipping_def get_carrier_context_def)
    next
      case (Inr p)
      from True have "carrier_cost_method c = ''endicia''" by simp
      from assms [OF Some this mc] look Inr have "\<not> truthy (fst p)" by simp
      with Some True mc look Inr show ?thesis
        by (cases "fst p") (simp_all add: apply_endicia_shipping_def get_carrier_context_def)
    qed
  qed
qed

theorem zero_or_empty_cost_keeps_lines_witness:
  "rate_for_others usps \<lparr>ctx_sale = Some 1, ctx_shipment = None\<rparr>
      (db (order (Some usps) (Some priority) basket)) = (Inr (Some 0, 1), []) \<and>
   rate_for_others usps \<lparr>ctx_sale = Some 2, ctx_shipment = None\<rparr>
      (db (order (Some usps) (Some priority) basket)) = (Inr (Some 3, 1), []) \<and>
   \<not> truthy (Some 0) \<and> \<not> truthy None \<and>
   sales (snd (apply_endicia_shipping rate_for_others (\<lambda>_. no_context) 1
            (db (order (Some usps) (Some priority) basket))))
     = sales (db (order (Some usps) (Some priority) basket)) \<and>
   lines (sales (snd (apply_endicia_shipping (fixed_rate None) (\<lambda>_. no_context) 1
            (db (order (Some usps) (Some priority) basket)))) 1) = basket"
proof -
  let ?st = "db (order (Some usps) (Some priority) basket)"
  have z: "\<not> truthy (fst p)"
    if "carrier (sales ?st 1) = Some c" and "carrier_cost_method c = ''endicia''"
      and "endicia_mailclass (sales ?st 1) = Some mc"
      and "rate_for_others c (((\<lambda>_. no_context) (sales ?st 1))\<lparr>ctx_sale := Some 1\<rparr>) ?st = (Inr p, reqs)"
    for c mc p reqs
    using that(4) by (auto simp: rate_for_others_def)
  have n: "\<not> truthy (fst p)"
    if "carrier (sales ?st 1) = Some c" and "carrier_cost_method c = ''endicia''"
      and "endicia_mailclass (sales ?st 1) = Some mc"
      and "fixed_rate None c (((\<lambda>_. no_context) (sales ?st 1))\<lparr>ctx_sale := Some 1\<rparr>) ?st = (Inr p, reqs)"
    for c mc p reqs
    using that(4) by (auto simp: fixed_rate_def)
  have l: "lines (sales ?st 1) = basket" by (simp add: db_def order_def)
  have r: "rate_for_others usps \<lparr>ctx_sale = Some 1, ctx_shipment = None\<rparr> ?st = (Inr (Some 0, 1), [])"
    "rate_for_others usps \<lparr>ctx_sale = Some 2, ctx_shipment = None\<rparr> ?st = (Inr (Some 3, 1), [])"
    by (simp_all add: rate_for_others_def)
  have a: "sales (snd (apply_endicia_shipping rate_for_others (\<lambda>_. no_context) 1 ?st)) = sales ?st"
    using zero_or_empty_cost_keeps_lines
         [where get_sale_price = rate_for_others and st = ?st and super_context = "\<lambda>_. no_context"
            and sid = 1] z
    by blast
  have b: "sales (snd (apply_endicia_shipping (fixed_rate None) (\<lambda>_. no_context) 1 ?st)) = sales ?st"
    using zero_or_empty_cost_keeps_lines
         [where get_sale_price = "fixed_rate None" and st = ?st and super_context = "\<lambda>_. no_context"
            and sid = 1] n
    by blast
  from a b l r show ?thesis by simp
qed

text \<open>
  C4 as stated fails for a negative cost: \<^verbatim>\<open>not shipment_cost[0]\<close> is false for it, and
  the lines are rewritten.
\<close>

theorem negative_cost_changes_lines_counterexample:
  "(- 1 :: rat) \<le> 0 \<and>
   fixed_rate (Some (- 1)) usps \<lparr>ctx_sale = Some 1, ctx_shipment = None\<rparr>
      (db (order (Some usps) (Some priority) basket)) = (Inr (Some (- 1), 1), []) \<and>
   map line_id (lines (sales (db (order (Some usps) (Some priority) basket)) 1)) = [1, 2] \<and>
   map line_id
     (lines (sales (snd (apply_endicia_shipping (fixed_rate (Some (- 1))) (\<lambda>_. no_context) 1
            (db (order (Some usps) (Some priority) basket)))) 1)) = [1, 10] \<and>
   map shipment_cost
     (lines (sales (snd (apply_endicia_shipping (fixed_rate (Some (- 1))) (\<lambda>_. no_context) 1
            (db (order (Some usps) (Some priority) basket)))) 1)) = [None, Some (- 1)] \<and>
   lines (sales (snd (apply_endicia_shipping (fixed_rate (Some (- 1))) (\<lambda>_. no_context) 1
            (db (order (Some usps) (Some priority) basket)))) 1)
     \<noteq> lines (sales (db (order (Some usps) (Some priority) basket)) 1)"
proof -
  let ?st = "db (order (Some usps) (Some priority) basket)"
  let ?after = "lines (sales (snd (apply_endicia_shipping (fixed_rate (Some (- 1)))
                  (\<lambda>_. no_context) 1 ?st)) 1)"
  have r: "fixed_rate (Some (- 1)) usps \<lparr>ctx_sale = Some 1, ctx_shipment = None\<rparr> ?st
             = (Inr (Some (- 1), 1), [])"
    by (simp add: fixed_rate_def)
  have b: "map line_id (lines (sales ?st 1)) = [1, 2]"
    by (simp add: example_defs)
  have a: "map line_id ?after = [1, 10]"
    by (simp add: apply_endicia_shipping_def get_carrier_context_def write_lines_def
        example_defs)
  have c: "map shipment_cost ?after = [None, Some (- 1)]"
    by (simp add: apply_endicia_shipping_def get_carrier_context_def write_lines_def
        shipping_line_values_def example_defs)
  have "?after \<noteq> lines (sales ?st 1)"
  proof
    assume "?after = lines (sales ?st 1)"
    then have "map line_id ?after = map line_id (lines (sales ?st 1))" by (rule arg_cong)
    with a b show False by simp
  qed
  with r a b c show ?thesis by simp
qed

lemma write_lines_frame [simp]:
  "carrier (sales (write_lines sid acts st) i) = carrier (sales st i)"
  "endicia_mailclass (sales (write_lines sid acts st) i) = endicia_mailclass (sales st i)"
  by (simp_all add: write_lines_def split: prod.splits)

lemma ids_ok_after_write:
  assumes "ids_ok st sid"
  shows "ids_ok (write_lines sid
              [Create v, Delete (map line_id (shipping_lines (lines (sales st sid))))]
              (record_sent reqs st)) sid"
proof -
  let ?ls = "lines (sales st sid)"
  let ?st' = "write_lines sid [Create v, Delete (map line_id (shipping_lines ?ls))]
                (record_sent reqs st)"
  from assms have d: "distinct (map line_id ?ls)"
    and fresh: "\<forall>l\<in>set ?ls. line_id l < next_line_id st"
    by (simp_all add: ids_ok_def list_all_iff)
  have ls: "lines (sales ?st' sid) = other_lines ?ls @ [stored (next_line_id st) v]"
    by (rule lines_after_write [OF assms])
  have n: "next_line_id ?st' = Suc (next_line_id st)"
    by (simp add: write_lines_create_delete)
  have "distinct (map line_id (other_lines ?ls))"
    unfolding other_lines_def using d by (rule distinct_map_filter)
  moreover have "\<forall>l\<in>set (other_lines ?ls). line_id l < next_line_id st"
    using fresh by (simp add: other_lines_def)
  ultimately show ?thesis
    unfolding ids_ok_def ls n by (auto simp: list_all_iff)
qed

lemma one_shipping_line_after_write:
  assumes "ids_ok st sid" and "d \<noteq> 0"
  shows "shipping_lines (lines (sales (write_lines sid
              [Create (shipping_line_values c mc d),
               Delete (map line_id (shipping_lines (lines (sales st sid))))]
              (record_sent reqs st)) sid))
         = [stored (next_line_id st) (shipping_line_values c mc d)]"
  using assms(2)
  unfolding lines_after_write [OF assms(1)]
  by (simp add: shipping_lines_def other_lines_def shipping_line_values_def)

lemma others_after_write:
  assumes "ids_ok st sid" and "d \<noteq> 0"
  shows "other_lines (lines (sales (write_lines sid
              [Create (shipping_line_values c mc d),
               Delete (map line_id (shipping_lines (lines (sales st sid))))]
              (record_sent reqs st)) sid))
         = other_lines (lines (sales st sid))"
  using assms(2)
  unfolding lines_after_write [OF assms(1)]
  by (simp add: other_lines_def shipping_line_values_def)

lemma flagged_all_deleted:
  "filter (\<lambda>l. truthy (shipment_cost l))
     (filter (\<lambda>l. line_id l \<notin> set (map line_id (shipping_lines ls))) ls) = []"
  by (auto simp: filter_empty_conv shipping_lines_def)

lemma at_most_one_after_write:
  "length (shipping_lines (lines (sales (write_lines sid
      [Create v, Delete (map line_id (shipping_lines (lines (sales st sid))))] st) sid))) \<le> 1"
proof -
  have "shipping_lines (filter (\<lambda>l. line_id l \<notin> set (map line_id (shipping_lines ls))) ls) = []"
    for ls
    unfolding shipping_lines_def [of "filter _ _"] by (rule flagged_all_deleted)
  then show ?thesis
    by (simp add: write_lines_create_delete shipping_lines_def [of "_ @ _"]
        shipping_lines_def [of "filter _ _"] flagged_all_deleted)
qed

lemma apply_lines_cases:
  "sales (snd (apply_endicia_shipping get_sale_price super_context sid st)) = sales st \<or>
   (\<exists>v reqs. snd (apply_endicia_shipping get_sale_price super_context sid st)
       = write_lines sid
           [Create v, Delete (map line_id (shipping_lines (lines (sales (record_sent reqs st) sid))))]
           (record_sent reqs st))"
proof (cases "carrier (sales st sid)")
  case None
  then show ?thesis by (simp add: apply_endicia_shipping_def)
next
  case (Some c)
  show ?thesis
  proof (cases "carrier_cost_method c = ''endicia'' \<and> endicia_mailclass (sales st sid) \<noteq> None")
    case False
    with Some show ?thesis by (auto simp: apply_endicia_shipping_def)
  next
    case True
    then obtain mc where mc: "endicia_mailclass (sales st sid) = Some mc" by auto
    let ?ctx = "(super_context (sales st sid))\<lparr>ctx_sale := Some sid\<rparr>"
    obtain r reqs where look: "get_sale_price c ?ctx st = (r, reqs)" by (cases "get_sale_price c ?ctx st")
    show ?thesis
    proof (cases r)
      case (Inl e)
      with Some True mc look show ?thesis
        by (simp add: apply_endicia_shipping_def get_carrier_context_def)
    next
      case (Inr p)
      show ?thesis
      proof (cases "fst p")
        case None
        with Some True mc look Inr show ?thesis
          by (simp add: apply_endicia_shipping_def get_carrier_context_def)
      next
        case (Some d)
        show ?thesis
        proof (cases "d = 0")
          case True
          with \<open>carrier (sales st sid) = Some c\<close> \<open>carrier_cost_method c = ''endicia'' \<and> _\<close>
            mc look Inr Some show ?thesis
            by (simp add: apply_endicia_shipping_def get_carrier_context_def)
        next
          case False
          with \<open>carrier (sales st sid) = Some c\<close> \<open>carrier_cost_method c = ''endicia'' \<and> _\<close>
            mc look Inr Some
          have "snd (apply_endicia_shipping get_sale_price super_context sid st)
            = write_lines sid
                [Create (shipping_line_values c mc d),
                 Delete (map line_id (shipping_lines (lines (sales (record_sent reqs st) sid))))]
                (record_sent reqs st)"
            by (simp add: apply_endicia_shipping_def get_carrier_context_def shipping_lines_def)
          then show ?thesis by blast
        qed
      qed
    qed
  qed
qed

lemma at_most_one_preserved:
  assumes "length (shipping_lines (lines (sales st sid))) \<le> 1"
  shows "length (shipping_lines (lines (sales
           (snd (apply_endicia_shipping get_sale_price super_context sid st)) sid))) \<le> 1"
  using apply_lines_cases [of get_sale_price super_context sid st]
proof
  assume "sales (snd (apply_endicia_shipping get_sale_price super_context sid st)) = sales st"
  with assms show ?thesis by simp
next
  assume "\<exists>v reqs. snd (apply_endicia_shipping get_sale_price super_context sid st)
       = write_lines sid
           [Create v, Delete (map line_id (shipping_lines (lines (sales (record_sent reqs st) sid))))]
           (record_sent reqs st)"
  then obtain v reqs where "snd (apply_endicia_shipping get_sale_price super_context sid st)
       = write_lines sid
           [Create v, Delete (map line_id (shipping_lines (lines (sales (record_sent reqs st) sid))))]
           (record_sent reqs st)" by blast
  then show ?thesis by (simp only: at_most_one_after_write)
qed

text \<open>
  C5, as amended. For every order and every rate lookup, an order with at most one
  shipping-charge line has at most one after applying shipping. On an order whose
  carrier's cost method is endicia, with a mail class, when the lookup returns a cost
  that is not zero to the call made, exactly one shipping-charge line is on the order
  afterwards, however many there were; and when the lookup returns the same cost to the
  call of a second application, made in the state the first one left, there is exactly
  one again, not two, with the other lines as they were.
\<close>

theorem one_shipping_line_after_applying:
  assumes "st' = snd (apply_endicia_shipping get_sale_price super_context sid st)"
    and "st'' = snd (apply_endicia_shipping get_sale_price super_context sid st')"
  shows
    "(length (shipping_lines (lines (sales st sid))) \<le> 1 \<longrightarrow>
        length (shipping_lines (lines (sales st' sid))) \<le> 1) \<and>
     (carrier (sales st sid) = Some c \<and> carrier_cost_method c = ''endicia'' \<and>
      endicia_mailclass (sales st sid) = Some mc \<and>
      get_sale_price c ((super_context (sales st sid))\<lparr>ctx_sale := Some sid\<rparr>) st
        = (Inr (Some d, cur), reqs) \<and>
      d \<noteq> 0 \<and> ids_ok st sid \<longrightarrow>
        apply_endicia_shipping get_sale_price super_context sid st = (Inr (), st') \<and>
        length (shipping_lines (lines (sales st' sid))) = 1 \<and>
        (get_sale_price c ((super_context (sales st' sid))\<lparr>ctx_sale := Some sid\<rparr>) st'
           = (Inr (Some d, cur'), reqs') \<longrightarrow>
           apply_endicia_shipping get_sale_price super_context sid st' = (Inr (), st'') \<and>
           length (shipping_lines (lines (sales st'' sid))) = 1 \<and>
           other_lines (lines (sales st'' sid)) = other_lines (lines (sales st sid))))"
proof (intro conjI impI)
  assume "length (shipping_lines (lines (sales st sid))) \<le> 1"
  then show "length (shipping_lines (lines (sales st' sid))) \<le> 1"
    unfolding assms(1) by (rule at_most_one_preserved)
next
  assume h: "carrier (sales st sid) = Some c \<and> carrier_cost_method c = ''endicia'' \<and>
      endicia_mailclass (sales st sid) = Some mc \<and>
      get_sale_price c ((super_context (sales st sid))\<lparr>ctx_sale := Some sid\<rparr>) st
        = (Inr (Some d, cur), reqs) \<and>
      d \<noteq> 0 \<and> ids_ok st sid"
  let ?w1 = "write_lines sid
              [Create (shipping_line_values c mc d),
               Delete (map line_id (shipping_lines (lines (sales st sid))))]
              (record_sent reqs st)"
  from h have run1: "apply_endicia_shipping get_sale_price super_context sid st = (Inr (), ?w1)"
    by (intro apply_reaches_write) simp_all
  then have s1: "st' = ?w1" by (simp add: assms(1))
  from h have ok: "ids_ok st sid" and d: "d \<noteq> 0" by simp_all
  show a: "apply_endicia_shipping get_sale_price super_context sid st = (Inr (), st')"
    by (simp add: run1 s1)
  show b: "length (shipping_lines (lines (sales st' sid))) = 1"
    unfolding s1 by (simp add: one_shipping_line_after_write [OF ok d])
  have ok1: "ids_ok st' sid" unfolding s1 by (rule ids_ok_after_write [OF ok])
  have c1: "carrier (sales st' sid) = Some c" and m1: "endicia_mailclass (sales st' sid) = Some mc"
    using h by (simp_all add: s1)
  assume look': "get_sale_price c ((super_context (sales st' sid))\<lparr>ctx_sale := Some sid\<rparr>) st'
           = (Inr (Some d, cur'), reqs')"
  let ?w2 = "write_lines sid
              [Create (shipping_line_values c mc d),
               Delete (map line_id (shipping_lines (lines (sales st' sid))))]
              (record_sent reqs' st')"
  from h have e: "carrier_cost_method c = ''endicia''" by simp
  have run2: "apply_endicia_shipping get_sale_price super_context sid st' = (Inr (), ?w2)"
    by (rule apply_reaches_write
          [where super_context = super_context and get_sale_price = get_sale_price,
           OF c1 e m1 look' d])
  then have s2: "st'' = ?w2" by (simp add: assms(2))
  show "apply_endicia_shipping get_sale_price super_context sid st' = (Inr (), st'')"
    by (simp add: run2 s2)
  show "length (shipping_lines (lines (sales st'' sid))) = 1"
    unfolding s2 by (simp add: one_shipping_line_after_write [OF ok1 d])
  have "other_lines (lines (sales st'' sid)) = other_lines (lines (sales st' sid))"
    unfolding s2 by (rule others_after_write [OF ok1 d])
  also have "\<dots> = other_lines (lines (sales st sid))"
    unfolding s1 by (rule others_after_write [OF ok d])
  finally show "other_lines (lines (sales st'' sid)) = other_lines (lines (sales st sid))" .
qed

theorem one_shipping_line_after_applying_witness:
  "length (shipping_lines (lines (sales (db (order (Some usps) (Some priority) double_basket)) 1))) = 2 \<and>
   rate_per_line usps \<lparr>ctx_sale = Some 1, ctx_shipment = None\<rparr>
      (db (order (Some usps) (Some priority) double_basket)) = (Inr (Some 5, 1), []) \<and>
   rate_per_line usps \<lparr>ctx_sale = Some 1, ctx_shipment = None\<rparr>
      (snd (apply_endicia_shipping rate_per_line (\<lambda>_. no_context) 1
         (db (order (Some usps) (Some priority) double_basket)))) = (Inr (Some 5, 1), []) \<and>
   rate_per_line usps \<lparr>ctx_sale = None, ctx_shipment = None\<rparr>
      (db (order (Some usps) (Some priority) double_basket)) = (Inr (Some 3, 1), []) \<and>
   length (shipping_lines (lines (sales
     (snd (apply_endicia_shipping rate_per_line (\<lambda>_. no_context) 1
        (db (order (Some usps) (Some priority) double_basket)))) 1))) = 1 \<and>
   length (shipping_lines (lines (sales
     (snd (apply_endicia_shipping rate_per_line (\<lambda>_. no_context) 1
        (snd (apply_endicia_shipping rate_per_line (\<lambda>_. no_context) 1
           (db (order (Some usps) (Some priority) double_basket)))))) 1))) = 1 \<and>
   length (shipping_lines (lines (sales (db (order (Some usps) (Some priority) basket)) 1))) = 1 \<and>
   length (shipping_lines (lines (sales
     (snd (apply_endicia_shipping (fixed_rate (Some 0)) (\<lambda>_. no_context) 1
        (db (order (Some usps) (Some priority) basket)))) 1))) \<le> 1"
proof -
  let ?st = "db (order (Some usps) (Some priority) double_basket)"
  let ?st1 = "snd (apply_endicia_shipping rate_per_line (\<lambda>_. no_context) 1 ?st)"
  let ?st2 = "snd (apply_endicia_shipping rate_per_line (\<lambda>_. no_context) 1 ?st1)"
  let ?ctx = "\<lparr>ctx_sale = Some 1, ctx_shipment = None\<rparr>"
  have h1: "carrier (sales ?st 1) = Some usps" by (simp add: db_def order_def)
  have h2: "carrier_cost_method usps = ''endicia''" by (simp add: usps_def)
  have h3: "endicia_mailclass (sales ?st 1) = Some priority" by (simp add: db_def order_def)
  have h4: "rate_per_line usps (((\<lambda>_. no_context) (sales ?st 1))\<lparr>ctx_sale := Some 1\<rparr>) ?st
              = (Inr (Some 5, 1), [])"
    by (simp add: rate_per_line_def other_lines_def example_defs double_basket_def)
  have h5: "(5::rat) \<noteq> 0" by simp
  have h6: "ids_ok ?st 1" by (simp add: ids_ok_def example_defs double_basket_def)
  have two: "length (shipping_lines (lines (sales ?st 1))) = 2"
    by (simp add: shipping_lines_def example_defs double_basket_def)
  note inst = one_shipping_line_after_applying
      [where get_sale_price = rate_per_line and super_context = "\<lambda>_. no_context" and sid = 1
         and st = ?st and st' = ?st1 and st'' = ?st2 and c = usps and mc = priority and d = 5
         and cur = 1 and reqs = "[]" and cur' = 1 and reqs' = "[]", OF refl refl]
  from inst h1 h2 h3 h4 h5 h6
  have first: "apply_endicia_shipping rate_per_line (\<lambda>_. no_context) 1 ?st = (Inr (), ?st1)"
    and one1: "length (shipping_lines (lines (sales ?st1 1))) = 1"
    by blast+
  have o1: "other_lines (lines (sales ?st1 1)) = [product_line 1 (widget (Some 2)) 3 None (Some 1)]"
    by (simp add: apply_endicia_shipping_def get_carrier_context_def write_lines_def
        rate_per_line_def other_lines_def shipping_line_values_def
        example_defs double_basket_def)
  have g: "rate_per_line c ctx s
             = (Inr (Some (4 + of_nat (length (other_lines (lines (sales s 1))))), 1), [])"
    if "ctx_sale ctx = Some 1" for c ctx s
    using that by (simp add: rate_per_line_def)
  have h4': "rate_per_line usps (((\<lambda>_. no_context) (sales ?st1 1))\<lparr>ctx_sale := Some 1\<rparr>) ?st1
              = (Inr (Some 5, 1), [])"
  proof -
    have "ctx_sale (((\<lambda>_. no_context) (sales ?st1 1))\<lparr>ctx_sale := Some 1\<rparr>) = Some 1"
      by simp
    from g [OF this, of usps ?st1, unfolded o1] show ?thesis by simp
  qed
  from inst h1 h2 h3 h4 h5 h6 h4'
  have one2: "length (shipping_lines (lines (sales ?st2 1))) = 1"
    by blast
  have r1: "rate_per_line usps ?ctx ?st = (Inr (Some 5, 1), [])"
    using h4 by (simp add: no_context_def)
  have r2: "rate_per_line usps ?ctx ?st1 = (Inr (Some 5, 1), [])"
    using h4' by (simp add: no_context_def)
  have r3: "rate_per_line usps \<lparr>ctx_sale = None, ctx_shipment = None\<rparr> ?st = (Inr (Some 3, 1), [])"
    by (simp add: rate_per_line_def)
  let ?b = "db (order (Some usps) (Some priority) basket)"
  have b1: "length (shipping_lines (lines (sales ?b 1))) = 1"
    by (simp add: shipping_lines_def example_defs)
  from one_shipping_line_after_applying
      [where get_sale_price = "fixed_rate (Some 0)" and super_context = "\<lambda>_. no_context"
         and sid = 1 and st = ?b, OF refl refl] b1
  have b2: "length (shipping_lines (lines (sales
     (snd (apply_endicia_shipping (fixed_rate (Some 0)) (\<lambda>_. no_context) 1 ?b)) 1))) \<le> 1"
    by simp
  from two r1 r2 r3 one1 one2 b1 b2 show ?thesis by blast
qed

text \<open>
  C5 as stated fails when the lookup returns zero: two earlier shipping-charge lines
  are both still there after applying shipping, and an order without a shipping-charge
  line has none, not one, after two applications.
\<close>

theorem shipping_lines_survive_counterexample:
  "carrier (sales (db (order (Some usps) (Some priority) double_basket)) 1) = Some usps \<and>
   carrier_cost_method usps = ''endicia'' \<and>
   endicia_mailclass (sales (db (order (Some usps) (Some priority) double_basket)) 1) = Some priority \<and>
   apply_endicia_shipping (fixed_rate (Some 0)) (\<lambda>_. no_context) 1
      (db (order (Some usps) (Some priority) double_basket))
     = (Inr (), db (order (Some usps) (Some priority) double_basket)) \<and>
   length (shipping_lines (lines (sales
     (snd (apply_endicia_shipping (fixed_rate (Some 0)) (\<lambda>_. no_context) 1
        (db (order (Some usps) (Some priority) double_basket)))) 1))) = 2 \<and>
   length (shipping_lines (lines (sales
     (snd (apply_endicia_shipping (fixed_rate (Some 0)) (\<lambda>_. no_context) 1
        (snd (apply_endicia_shipping (fixed_rate (Some 0)) (\<lambda>_. no_context) 1
           (db (order (Some usps) (Some priority) late_basket)))))) 1))) = 0"
proof -
  have a: "apply_endicia_shipping (fixed_rate (Some 0)) (\<lambda>_. no_context) 1
      (db (order (Some usps) (Some priority) ls))
     = (Inr (), db (order (Some usps) (Some priority) ls))" for ls
    by (simp add: apply_endicia_shipping_def get_carrier_context_def db_def order_def usps_def
        fixed_rate_def)
  have b: "length (shipping_lines (lines (sales (db (order (Some usps) (Some priority) double_basket)) 1))) = 2"
    by (simp add: shipping_lines_def example_defs double_basket_def)
  have c: "length (shipping_lines (lines (sales (db (order (Some usps) (Some priority) late_basket)) 1))) = 0"
    by (simp add: shipping_lines_def example_defs late_basket_def)
  have d: "carrier (sales (db (order (Some usps) (Some priority) double_basket)) 1) = Some usps"
    "carrier_cost_method usps = ''endicia''"
    "endicia_mailclass (sales (db (order (Some usps) (Some priority) double_basket)) 1) = Some priority"
    by (simp_all add: db_def order_def usps_def)
  show ?thesis unfolding a snd_conv using b c d by simp
qed

section \<open>Quotation\<close>

lemma spec_apply_next_simps:
  "spec_apply_next get_sale_price super_context (Inl e, st) sid = (Inl e, st)"
  "spec_apply_next get_sale_price super_context (Inr u, st) sid
     = apply_endicia_shipping get_sale_price super_context sid st"
  by (simp_all add: spec_apply_next_def)

lemma spec_apply_next_failed:
  "foldl (spec_apply_next get_sale_price super_context) (Inl e, st) sids = (Inl e, st)"
  by (induction sids) (simp_all add: spec_apply_next_simps)

lemma update_is_fold:
  "update_endicia_shipment_cost get_sale_price super_context sids st
     = foldl (spec_apply_next get_sale_price super_context) (Inr (), st) sids"
proof (induction sids arbitrary: st)
  case Nil
  show ?case by simp
next
  case (Cons sid sids)
  obtain r st' where ap: "apply_endicia_shipping get_sale_price super_context sid st = (r, st')"
    by (cases "apply_endicia_shipping get_sale_price super_context sid st")
  show ?case
  proof (cases r)
    case (Inl e)
    with ap show ?thesis by (simp add: spec_apply_next_simps spec_apply_next_failed)
  next
    case (Inr u)
    with ap Cons.IH [of st'] show ?thesis by (simp add: spec_apply_next_simps)
  qed
qed

lemma update_append:
  "update_endicia_shipment_cost get_sale_price super_context (xs @ ys) st
     = (case update_endicia_shipment_cost get_sale_price super_context xs st of
          (Inl e, st') \<Rightarrow> (Inl e, st')
        | (Inr _, st') \<Rightarrow> update_endicia_shipment_cost get_sale_price super_context ys st')"
  by (induction xs arbitrary: st) (auto split: prod.splits sum.splits)

text \<open>
  C7. The quotation of a batch is the base quotation of the whole batch, then the
  application of shipping to each order of the batch, one at a time and in order, each
  from the state the one before left (\<open>spec_quote\<close>); when the base procedure fails
  nothing is applied, and a quotation that returns returns the base procedure's result.
  The loop over a batch is the loop over its first part followed by the loop over the
  rest, and over a single order it is the application to that order.
\<close>

theorem quote_is_base_then_shipping:
  "quote super_quote get_sale_price super_context sids st
     = spec_quote super_quote get_sale_price super_context sids st \<and>
   (\<forall>e st1. super_quote sids st = (Inl e, st1) \<longrightarrow>
      quote super_quote get_sale_price super_context sids st = (Inl e, st1)) \<and>
   (\<forall>res st2. quote super_quote get_sale_price super_context sids st = (Inr res, st2) \<longrightarrow>
      (\<exists>st1. super_quote sids st = (Inr res, st1) \<and>
         update_endicia_shipment_cost get_sale_price super_context sids st1 = (Inr (), st2))) \<and>
   (\<forall>xs ys s. update_endicia_shipment_cost get_sale_price super_context (xs @ ys) s
      = (case update_endicia_shipment_cost get_sale_price super_context xs s of
           (Inl e, s') \<Rightarrow> (Inl e, s')
         | (Inr _, s') \<Rightarrow> update_endicia_shipment_cost get_sale_price super_context ys s')) \<and>
   (\<forall>sid s. update_endicia_shipment_cost get_sale_price super_context [sid] s
      = apply_endicia_shipping get_sale_price super_context sid s)"
proof -
  have eq: "quote super_quote get_sale_price super_context sids st
     = spec_quote super_quote get_sale_price super_context sids st"
    by (simp add: quote_def spec_quote_def update_is_fold Let_def split: prod.splits sum.splits)
  have fails: "\<forall>e st1. super_quote sids st = (Inl e, st1) \<longrightarrow>
      quote super_quote get_sale_price super_context sids st = (Inl e, st1)"
    by (simp add: quote_def)
  have returns: "\<forall>res st2. quote super_quote get_sale_price super_context sids st = (Inr res, st2) \<longrightarrow>
      (\<exists>st1. super_quote sids st = (Inr res, st1) \<and>
         update_endicia_shipment_cost get_sale_price super_context sids st1 = (Inr (), st2))"
    by (auto simp: quote_def split: prod.splits sum.splits)
  have one: "\<forall>sid s. update_endicia_shipment_cost get_sale_price super_context [sid] s
      = apply_endicia_shipping get_sale_price super_context sid s"
    by (auto split: prod.splits sum.splits)
  from eq fails returns one update_append [of get_sale_price super_context]
  show ?thesis by blast
qed

theorem quote_is_base_then_shipping_witness:
  "fst (quote confirm_all (fixed_rate (Some 5)) (\<lambda>_. no_context) [1, 2]
          (db (order (Some usps) (Some priority) late_basket))) = Inr 2 \<and>
   map line_id (lines (sales (snd (quote confirm_all (fixed_rate (Some 5)) (\<lambda>_. no_context) [1, 2]
          (db (order (Some usps) (Some priority) late_basket)))) 1)) = [1, 10] \<and>
   map line_id (lines (sales (snd (quote confirm_all (fixed_rate (Some 5)) (\<lambda>_. no_context) [1, 2]
          (db (order (Some usps) (Some priority) late_basket)))) 2)) = [1, 11] \<and>
   map line_id (lines (sales (snd (quote confirm_all (fixed_rate (Some 5)) (\<lambda>_. no_context) [1, 2]
          (db (order (Some usps) (Some priority) late_basket)))) 3)) = [1]"
proof -
  let ?st = "db (order (Some usps) (Some priority) late_basket)"
  let ?q = "quote confirm_all (fixed_rate (Some 5)) (\<lambda>_. no_context) [1, 2] ?st"
  let ?s = "spec_quote confirm_all (fixed_rate (Some 5)) (\<lambda>_. no_context) [1, 2] ?st"
  from quote_is_base_then_shipping
         [of confirm_all "fixed_rate (Some 5)" "\<lambda>_. no_context" "[1, 2]" ?st]
  have eq: "?q = ?s" by (rule conjunct1)
  have a: "fst ?s = Inr 2"
    by (simp add: spec_quote_def confirm_all_def spec_apply_next_def apply_endicia_shipping_def
        get_carrier_context_def write_lines_def example_defs late_basket_def)
  have b: "map line_id (lines (sales (snd ?s) 1)) = [1, 10]"
    by (simp add: spec_quote_def confirm_all_def spec_apply_next_def apply_endicia_shipping_def
        get_carrier_context_def write_lines_def example_defs late_basket_def)
  have c: "map line_id (lines (sales (snd ?s) 2)) = [1, 11]"
    by (simp add: spec_quote_def confirm_all_def spec_apply_next_def apply_endicia_shipping_def
        get_carrier_context_def write_lines_def example_defs late_basket_def)
  have d: "map line_id (lines (sales (snd ?s) 3)) = [1]"
    by (simp add: spec_quote_def confirm_all_def spec_apply_next_def apply_endicia_shipping_def
        get_carrier_context_def write_lines_def example_defs late_basket_def)
  from a b c d show ?thesis unfolding eq by blast
qed

section \<open>Shipments\<close>

lemma write_cost_frame [simp]:
  "sales (write_shipments ids change st) = sales st"
  "next_line_id (write_shipments ids change st) = next_line_id st"
  "sent (write_shipments ids change st) = sent st"
  by (simp_all add: write_shipments_def)

lemma without_costs_write_cost [simp]:
  "without_costs (write_shipments ids (\<lambda>s. s\<lparr>cost := x\<rparr>) st) = without_costs st"
  by (auto simp: without_costs_def write_shipments_def)

lemma without_costs_record_sent [simp]:
  "without_costs (record_sent reqs st) = without_costs st"
  by (simp add: without_costs_def)

lemma update_shipment_costs_frame:
  "update_shipment_costs get_sale_price shipment_context c shs st = (r, st') \<Longrightarrow>
   sales st' = sales st \<and> next_line_id st' = next_line_id st \<and>
   without_costs st' = without_costs st"
proof (induction shs arbitrary: st)
  case Nil
  then show ?case by simp
next
  case (Cons sh shs)
  obtain lr reqs where look: "get_sale_price c (shipment_context sh st) st = (lr, reqs)"
    by (cases "get_sale_price c (shipment_context sh st) st")
  show ?case
  proof (cases lr)
    case (Inl e)
    with look Cons.prems show ?thesis by auto
  next
    case (Inr price)
    let ?st1 = "write_shipments [sh] (\<lambda>s. s\<lparr>cost := fst price\<rparr>) (record_sent reqs st)"
    from look Inr Cons.prems
    have "update_shipment_costs get_sale_price shipment_context c shs ?st1 = (r, st')" by simp
    from Cons.IH [OF this] show ?thesis by simp
  qed
qed

lemma update_shipment_costs_others:
  "update_shipment_costs get_sale_price shipment_context c shs st = (r, st') \<Longrightarrow>
   sh \<notin> set shs \<Longrightarrow> shipments st' sh = shipments st sh"
proof (induction shs arbitrary: st)
  case Nil
  then show ?case by simp
next
  case (Cons x shs)
  obtain lr reqs where look: "get_sale_price c (shipment_context x st) st = (lr, reqs)"
    by (cases "get_sale_price c (shipment_context x st) st")
  show ?case
  proof (cases lr)
    case (Inl e)
    with look Cons.prems show ?thesis by auto
  next
    case (Inr price)
    let ?st1 = "write_shipments [x] (\<lambda>s. s\<lparr>cost := fst price\<rparr>) (record_sent reqs st)"
    from look Inr Cons.prems
    have run: "update_shipment_costs get_sale_price shipment_context c shs ?st1 = (r, st')" by simp
    from Cons.prems have "sh \<notin> set shs" "sh \<noteq> x" by auto
    with Cons.IH [OF run] show ?thesis by (simp add: write_shipments_def)
  qed
qed

lemma update_shipment_costs_looked_up:
  "update_shipment_costs get_sale_price shipment_context c shs st = (Inr u, st') \<Longrightarrow>
   sh \<in> set shs \<Longrightarrow>
   \<exists>s cur reqs.
     get_sale_price c (shipment_context sh s) s = (Inr (cost (shipments st' sh), cur), reqs) \<and>
     sales s = sales st \<and> without_costs s = without_costs st"
proof (induction shs arbitrary: st)
  case Nil
  then show ?case by simp
next
  case (Cons x shs)
  obtain lr reqs where look: "get_sale_price c (shipment_context x st) st = (lr, reqs)"
    by (cases "get_sale_price c (shipment_context x st) st")
  show ?case
  proof (cases lr)
    case (Inl e)
    with look Cons.prems show ?thesis by auto
  next
    case (Inr price)
    let ?st1 = "write_shipments [x] (\<lambda>s. s\<lparr>cost := fst price\<rparr>) (record_sent reqs st)"
    from look Inr Cons.prems
    have run: "update_shipment_costs get_sale_price shipment_context c shs ?st1 = (Inr u, st')"
      by simp
    show ?thesis
    proof (cases "sh \<in> set shs")
      case True
      from Cons.IH [OF run True] show ?thesis by simp
    next
      case False
      with Cons.prems have x: "sh = x" by simp
      from update_shipment_costs_others [OF run False]
      have "cost (shipments st' sh) = fst price" by (simp add: x write_shipments_def)
      with look Inr x have "get_sale_price c (shipment_context sh st) st
          = (Inr (cost (shipments st' sh), snd price), reqs)" by simp
      then show ?thesis by blast
    qed
  qed
qed

text \<open>
  C8. When \<^verbatim>\<open>create_shipment\<close> of type \<^verbatim>\<open>'out'\<close> returns shipments for an order whose
  carrier's cost method is endicia, every shipment returned has the order's mail class
  and the order's shipping flag, and its cost is what the carrier's rate lookup returned
  in that shipment's own carrier context, in a state that has the same orders and
  differs in shipments' costs at most.
\<close>

theorem shipments_inherit_and_are_priced:
  assumes "create_shipment super_create_shipment get_sale_price shipment_context sid ''out'' st
             = (Inr (Some shs), st')"
    and "carrier (sales st' sid) = Some c" and "carrier_cost_method c = ''endicia''"
  shows "\<forall>sh\<in>set shs.
           shipment_endicia_mailclass (shipments st' sh)
             = map_option mailclass_id (endicia_mailclass (sales st' sid)) \<and>
           endicia_mailclass (sales st' sid) \<noteq> None \<and>
           shipment_is_endicia_shipping (shipments st' sh) = is_endicia_shipping (sales st' sid) \<and>
           (\<exists>s cur reqs.
              get_sale_price c (shipment_context sh s) s
                = (Inr (cost (shipments st' sh), cur), reqs) \<and>
              sales s = sales st' \<and> without_costs s = without_costs st')"
proof (cases "shs = []")
  case True
  then show ?thesis by simp
next
  case False
  obtain st1 where base: "super_create_shipment sid ''out'' st = (Inr (Some shs), st1)"
    using assms(1)
    by (auto simp: create_shipment_def split: prod.splits sum.splits option.splits if_splits)
  have c1: "carrier (sales st1 sid) = Some c"
    using assms base False
    by (auto simp: create_shipment_def split: prod.splits sum.splits option.splits if_splits
        dest: update_shipment_costs_frame)
  from assms(1) base c1 assms(3) False
  obtain mc where mc: "endicia_mailclass (sales st1 sid) = Some mc"
    by (auto simp: create_shipment_def split: prod.splits sum.splits option.splits if_splits)
  let ?st2 = "write_shipments shs
                (\<lambda>s. s\<lparr>shipment_endicia_mailclass := Some (mailclass_id mc),
                       shipment_is_endicia_shipping := is_endicia_shipping (sales st1 sid)\<rparr>) st1"
  from assms(1) base c1 assms(3) False mc
  have loop: "update_shipment_costs get_sale_price shipment_context c shs ?st2 = (Inr (), st')"
    by (auto simp: create_shipment_def split: prod.splits sum.splits)
  from update_shipment_costs_frame [OF loop]
  have fr: "sales st' = sales st1" "without_costs st' = without_costs ?st2" by simp_all
  show ?thesis
  proof
    fix sh assume sh: "sh \<in> set shs"
    have "shipment_endicia_mailclass (without_costs st' sh)
            = shipment_endicia_mailclass (without_costs ?st2 sh)"
      and "shipment_is_endicia_shipping (without_costs st' sh)
            = shipment_is_endicia_shipping (without_costs ?st2 sh)"
      by (simp_all only: fr(2))
    with sh have inh:
      "shipment_endicia_mailclass (shipments st' sh) = Some (mailclass_id mc)"
      "shipment_is_endicia_shipping (shipments st' sh) = is_endicia_shipping (sales st1 sid)"
      by (simp_all add: without_costs_def write_shipments_def)
    from update_shipment_costs_looked_up [OF loop sh]
    obtain s cur reqs where
      "get_sale_price c (shipment_context sh s) s = (Inr (cost (shipments st' sh), cur), reqs)"
      "sales s = sales ?st2" "without_costs s = without_costs ?st2"
      by blast
    with fr have "\<exists>s cur reqs.
              get_sale_price c (shipment_context sh s) s
                = (Inr (cost (shipments st' sh), cur), reqs) \<and>
              sales s = sales st' \<and> without_costs s = without_costs st'"
      by auto
    with inh mc fr(1)
    show "shipment_endicia_mailclass (shipments st' sh)
             = map_option mailclass_id (endicia_mailclass (sales st' sid)) \<and>
           endicia_mailclass (sales st' sid) \<noteq> None \<and>
           shipment_is_endicia_shipping (shipments st' sh) = is_endicia_shipping (sales st' sid) \<and>
           (\<exists>s cur reqs.
              get_sale_price c (shipment_context sh s) s
                = (Inr (cost (shipments st' sh), cur), reqs) \<and>
              sales s = sales st' \<and> without_costs s = without_costs st')"
      by simp
  qed
qed

lemmas create_shipment_example_defs = create_shipment_def ship_two_def by_shipment_def
  rate_by_shipment_def write_shipments_def record_sent_def

theorem shipments_inherit_and_are_priced_witness:
  "fst (create_shipment ship_two rate_by_shipment by_shipment 7 ''out''
          (db (order (Some usps) (Some priority) basket))) = Inr (Some [1, 2]) \<and>
   carrier (sales (snd (create_shipment ship_two rate_by_shipment by_shipment 7 ''out''
          (db (order (Some usps) (Some priority) basket)))) 7) = Some usps \<and>
   carrier_cost_method usps = ''endicia'' \<and>
   shipment_endicia_mailclass (shipments (snd (create_shipment ship_two rate_by_shipment
          by_shipment 7 ''out'' (db (order (Some usps) (Some priority) basket)))) 1) = Some 4 \<and>
   shipment_endicia_mailclass (shipments (snd (create_shipment ship_two rate_by_shipment
          by_shipment 7 ''out'' (db (order (Some usps) (Some priority) basket)))) 2) = Some 4 \<and>
   shipment_is_endicia_shipping (shipments (snd (create_shipment ship_two rate_by_shipment
          by_shipment 7 ''out'' (db (order (Some usps) (Some priority) basket)))) 1) \<and>
   shipment_is_endicia_shipping (shipments (snd (create_shipment ship_two rate_by_shipment
          by_shipment 7 ''out'' (db (order (Some usps) (Some priority) basket)))) 2) \<and>
   cost (shipments (snd (create_shipment ship_two rate_by_shipment
          by_shipment 7 ''out'' (db (order (Some usps) (Some priority) basket)))) 1) = Some 4 \<and>
   cost (shipments (snd (create_shipment ship_two rate_by_shipment
          by_shipment 7 ''out'' (db (order (Some usps) (Some priority) basket)))) 2) = Some 5 \<and>
   shipments (snd (create_shipment ship_two rate_by_shipment
          by_shipment 7 ''out'' (db (order (Some usps) (Some priority) basket)))) 3 = blank_shipment"
proof -
  let ?st = "db (order (Some usps) (Some priority) basket)"
  let ?run = "create_shipment ship_two rate_by_shipment by_shipment 7 ''out'' ?st"
  have r: "fst ?run = Inr (Some [1, 2])"
    by (simp add: create_shipment_example_defs db_def order_def usps_def)
  then have run: "?run = (Inr (Some [1, 2]), snd ?run)" by (simp add: prod_eq_iff)
  have sl: "sales (snd ?run) = sales ?st"
    by (simp add: create_shipment_example_defs db_def order_def usps_def)
  have h2: "carrier (sales (snd ?run) 7) = Some usps" unfolding sl by (simp add: db_def order_def)
  have h3: "carrier_cost_method usps = ''endicia''" by (simp add: usps_def)
  have m: "map_option mailclass_id (endicia_mailclass (sales (snd ?run) 7)) = Some 4"
    "is_endicia_shipping (sales (snd ?run) 7)"
    unfolding sl by (simp_all add: db_def order_def priority_def)
  from shipments_inherit_and_are_priced [OF run h2 h3] m
  have inh: "shipment_endicia_mailclass (shipments (snd ?run) 1) = Some 4"
    "shipment_endicia_mailclass (shipments (snd ?run) 2) = Some 4"
    "shipment_is_endicia_shipping (shipments (snd ?run) 1)"
    "shipment_is_endicia_shipping (shipments (snd ?run) 2)"
    by simp_all
  have costs: "cost (shipments (snd ?run) 1) = Some 4" "cost (shipments (snd ?run) 2) = Some 5"
    "shipments (snd ?run) 3 = blank_shipment"
    by (simp_all add: create_shipment_example_defs db_def order_def usps_def blank_shipment_def)
  from r h2 h3 inh costs show ?thesis by blast
qed

section \<open>Missing weights\<close>

lemma line_weights_first_failure:
  "list_all (\<lambda>x. \<not> isl (weigh x)) before \<Longrightarrow> weigh l = Inl e \<Longrightarrow>
   line_weights weigh (before @ l # after) = Inl e"
  by (induction before) (auto split: sum.splits)

lemma line_weights_some_failure:
  "l \<in> set ls \<Longrightarrow> isl (weigh l) \<Longrightarrow> isl (line_weights weigh ls)"
  by (induction ls) (auto split: sum.splits)

lemma shipping_cost_unweighable:
  assumes "l \<in> set (lines self)"
    and "isl (get_weight_for_endicia compute_qty float_mul uoms l)"
  shows "\<exists>e. get_endicia_shipping_cost compute_qty float_mul uoms get_endicia_credentials
               send_request total_amount self = (Inl e, [])"
proof -
  from line_weights_some_failure
         [where weigh = "get_weight_for_endicia compute_qty float_mul uoms", OF assms]
  obtain e where "line_weights (get_weight_for_endicia compute_qty float_mul uoms) (lines self) = Inl e"
    by (auto simp: isl_def)
  then show ?thesis
    by (auto simp: get_endicia_shipping_cost_def split: sum.splits option.splits)
qed

lemma apply_lookup_failed:
  assumes "carrier (sales st sid) = Some c" and "carrier_cost_method c = ''endicia''"
    and "get_sale_price c ((super_context (sales st sid))\<lparr>ctx_sale := Some sid\<rparr>) st = (Inl e, [])"
  shows "\<exists>e'. apply_endicia_shipping get_sale_price super_context sid st = (Inl e', st)"
  using assms
  by (cases "endicia_mailclass (sales st sid)")
    (simp_all add: apply_endicia_shipping_def get_carrier_context_def)

lemma apply_lookup_failed_with:
  assumes "carrier (sales st sid) = Some c" and "carrier_cost_method c = ''endicia''"
    and "endicia_mailclass (sales st sid) = Some mc"
    and "get_sale_price c ((super_context (sales st sid))\<lparr>ctx_sale := Some sid\<rparr>) st = (Inl e, [])"
  shows "apply_endicia_shipping get_sale_price super_context sid st = (Inl e, st)"
  using assms by (simp add: apply_endicia_shipping_def get_carrier_context_def)

text \<open>
  C6, with the carrier's rate lookup modelled from the spec (\<open>carrier_get_sale_price\<close>).
  For a line that is not a service and whose product has no unit weight, the weight
  calculator fails with \<open>weight_required\<close> naming the product. Applying shipping to an
  order with such a line, with an endicia carrier, fails and leaves the whole state as
  it was: no line is changed and no request sent. When the credentials and the mail
  class are there and the lines before this one can be weighed, the error of both
  \<^verbatim>\<open>get_endicia_shipping_cost\<close> and the application is this line's.
\<close>

theorem missing_weight_aborts_shipping:
  assumes "lines (sales st sid) = before @ l # after"
    and "product l = Some p" and "product_type p \<noteq> ''service''" and "\<not> truthy (weight p)"
    and "carrier (sales st sid) = Some c" and "carrier_cost_method c = ''endicia''"
  shows "get_weight_for_endicia compute_qty float_mul uoms l = Inl (weight_required (name p)) \<and>
         (\<exists>e. apply_endicia_shipping
                 (carrier_get_sale_price
                    (get_endicia_shipping_cost compute_qty float_mul uoms get_endicia_credentials
                       send_request total_amount) usd other_lookup)
                 super_context sid st = (Inl e, st)) \<and>
         ((\<exists>cr. get_endicia_credentials (sales st sid) = Inr cr) \<and>
          endicia_mailclass (sales st sid) \<noteq> None \<and>
          list_all (\<lambda>x. \<not> isl (get_weight_for_endicia compute_qty float_mul uoms x)) before
          \<longrightarrow>
            get_endicia_shipping_cost compute_qty float_mul uoms get_endicia_credentials
               send_request total_amount (sales st sid) = (Inl (weight_required (name p)), []) \<and>
            apply_endicia_shipping
                 (carrier_get_sale_price
                    (get_endicia_shipping_cost compute_qty float_mul uoms get_endicia_credentials
                       send_request total_amount) usd other_lookup)
                 super_context sid st = (Inl (weight_required (name p)), st))"
proof -
  let ?weigh = "get_weight_for_endicia compute_qty float_mul uoms"
  let ?cost = "get_endicia_shipping_cost compute_qty float_mul uoms get_endicia_credentials
                 send_request total_amount"
  let ?lookup = "carrier_get_sale_price ?cost usd other_lookup"
  let ?ctx = "(super_context (sales st sid))\<lparr>ctx_sale := Some sid\<rparr>"
  have w: "?weigh l = Inl (weight_required (name p))"
    by (rule missing_weight_raises [OF assms(2-4)])
  have mem: "l \<in> set (lines (sales st sid))" by (simp add: assms(1))
  from w have "isl (?weigh l)" by simp
  from shipping_cost_unweighable [OF mem this]
  obtain e where e: "?cost (sales st sid) = (Inl e, [])" by blast
  then have "?lookup c ?ctx st = (Inl e, [])" by (simp add: carrier_get_sale_price_def)
  from apply_lookup_failed [where get_sale_price = ?lookup and super_context = super_context,
      OF assms(5,6) this]
  have abort: "\<exists>e. apply_endicia_shipping ?lookup super_context sid st = (Inl e, st)" .
  have named: "?cost (sales st sid) = (Inl (weight_required (name p)), []) \<and>
      apply_endicia_shipping ?lookup super_context sid st = (Inl (weight_required (name p)), st)"
    if cr: "\<exists>cr. get_endicia_credentials (sales st sid) = Inr cr"
      and mc: "endicia_mailclass (sales st sid) \<noteq> None"
      and ok: "list_all (\<lambda>x. \<not> isl (?weigh x)) before"
  proof -
    from mc obtain m where m: "endicia_mailclass (sales st sid) = Some m" by auto
    have "line_weights ?weigh (lines (sales st sid)) = Inl (weight_required (name p))"
      unfolding assms(1) using ok w by (rule line_weights_first_failure)
    with cr m have c: "?cost (sales st sid) = (Inl (weight_required (name p)), [])"
      by (auto simp: get_endicia_shipping_cost_def)
    then have "?lookup c ?ctx st = (Inl (weight_required (name p)), [])"
      by (simp add: carrier_get_sale_price_def)
    from apply_lookup_failed_with [where get_sale_price = ?lookup and super_context = super_context,
        OF assms(5,6) m this] c
    show ?thesis by simp
  qed
  from w abort named show ?thesis by blast
qed

theorem missing_weight_aborts_shipping_witness:
  "lines (sales (db (order (Some usps) (Some priority) unweighed_basket)) 1)
     = [product_line 1 (widget (Some 2)) 3 None (Some 1)] @ product_line 2 (widget None) 1 None (Some 2) # [] \<and>
   product (product_line 2 (widget None) 1 None (Some 2)) = Some (widget None) \<and>
   product_type (widget None) \<noteq> ''service'' \<and> weight (widget None) = None \<and>
   get_weight_for_endicia example_compute_qty (\<lambda>a b. a * b) [oz, kg, piece]
      (product_line 2 (widget None) 1 None (Some 2)) = Inl (weight_required ''Widget'') \<and>
   apply_endicia_shipping
      (carrier_get_sale_price
         (get_endicia_shipping_cost example_compute_qty (\<lambda>a b. a * b) [oz, kg, piece]
            example_credentials example_send_request example_total_amount) 1 (fixed_rate None))
      (\<lambda>_. no_context) 1 (db (order (Some usps) (Some priority) unweighed_basket))
     = (Inl (weight_required ''Widget''), db (order (Some usps) (Some priority) unweighed_basket))"
proof -
  let ?st = "db (order (Some usps) (Some priority) unweighed_basket)"
  let ?l = "product_line 2 (widget None) 1 None (Some 2)"
  let ?before = "[product_line 1 (widget (Some 2)) 3 None (Some 1)]"
  have h1: "lines (sales ?st 1) = ?before @ ?l # []"
    by (simp add: db_def order_def unweighed_basket_def)
  have h2: "product ?l = Some (widget None)" by (simp add: product_line_def)
  have h3: "product_type (widget None) \<noteq> ''service''" by (simp add: widget_def)
  have h4: "\<not> truthy (weight (widget None))" by (simp add: widget_def)
  have h4': "weight (widget None) = None" by (simp add: widget_def)
  have h5: "carrier (sales ?st 1) = Some usps" by (simp add: db_def order_def)
  have h6: "carrier_cost_method usps = ''endicia''" by (simp add: usps_def)
  have g1: "\<exists>cr. example_credentials (sales ?st 1) = Inr cr"
    by (simp add: example_credentials_def)
  have g2: "endicia_mailclass (sales ?st 1) \<noteq> None" by (simp add: db_def order_def)
  have g3: "list_all (\<lambda>x. \<not> isl (get_weight_for_endicia example_compute_qty (\<lambda>a b. a * b)
              [oz, kg, piece] x)) ?before"
    by (simp add: get_weight_for_endicia_def product_line_def widget_def oz_def piece_def)
  have n: "name (widget None) = ''Widget''" by (simp add: widget_def)
  from missing_weight_aborts_shipping
         [where compute_qty = example_compute_qty and float_mul = "\<lambda>a b. a * b"
            and uoms = "[oz, kg, piece]" and get_endicia_credentials = example_credentials
            and send_request = example_send_request and total_amount = example_total_amount
            and usd = 1 and other_lookup = "fixed_rate None" and super_context = "\<lambda>_. no_context",
          OF h1 h2 h3 h4 h5 h6] g1 g2 g3
  have "get_weight_for_endicia example_compute_qty (\<lambda>a b. a * b) [oz, kg, piece] ?l
          = Inl (weight_required ''Widget'')"
    and "apply_endicia_shipping
      (carrier_get_sale_price
         (get_endicia_shipping_cost example_compute_qty (\<lambda>a b. a * b) [oz, kg, piece]
            example_credentials example_send_request example_total_amount) 1 (fixed_rate None))
      (\<lambda>_. no_context) 1 ?st = (Inl (weight_required ''Widget''), ?st)"
    unfolding n by blast+
  with h1 h2 h3 h4' show ?thesis by blast
qed

end
